theory Spec2Isabelle
  imports Complex_Main "HOL-Library.Char_ord" "HOL-Library.List_Lexorder"
begin

section \<open>Cells, strings and calendar dates\<close>

text \<open>
  A spreadsheet cell as \<open>read_excel\<close> delivers it: blank (\<open>NaN\<close>), text, or a number.
  Strings are lists of characters, one \<open>char\<close> per code point; their order is the
  lexicographic order on code points, which is Python's order on \<open>str\<close>.
\<close>

datatype cell = NaN | Str string | Num rat

text \<open>
  The two conversions between numbers and text belong to the data-frame library, not to
  the dashboard: \<open>num_str\<close> is the text \<open>astype(str)\<close> gives a numeric cell, and
  \<open>str_num\<close> is the numeric reading \<open>to_numeric\<close> gives a text cell
  (\<open>None\<close> where the text is not a number). Both are parameters of the model.
\<close>

record pandas =
  num_str :: "rat \<Rightarrow> string"
  str_num :: "string \<Rightarrow> rat option"

text \<open>Python's \<open>str.strip()\<close>: whitespace is removed at both ends.\<close>

definition isspace :: "char \<Rightarrow> bool" where
  "isspace c = (c \<in> set [CHR 0x09, CHR 0x0A, CHR 0x0B, CHR 0x0C, CHR 0x0D,
                          CHR 0x1C, CHR 0x1D, CHR 0x1E, CHR 0x1F, CHR 0x20,
                          CHR 0x85, CHR 0xA0])"

definition strip :: "string \<Rightarrow> string" where
  "strip s = rev (dropWhile isspace (rev (dropWhile isspace s)))"

record date =
  year :: int
  month :: nat
  day :: nat

definition date_le :: "date \<Rightarrow> date \<Rightarrow> bool" where
  "date_le a b = (year a < year b \<or> (year a = year b \<and>
                   (month a < month b \<or> (month a = month b \<and> day a \<le> day b))))"

definition leap_year :: "int \<Rightarrow> bool" where
  "leap_year y = (y mod 4 = 0 \<and> (y mod 100 \<noteq> 0 \<or> y mod 400 = 0))"

definition days_in_month :: "int \<Rightarrow> nat \<Rightarrow> nat" where
  "days_in_month y m =
     (if m = 2 then (if leap_year y then 29 else 28)
      else if m = 4 \<or> m = 6 \<or> m = 9 \<or> m = 11 then 30 else 31)"

text \<open>
  \<open>ts - pd.DateOffset(months=n)\<close>: the month count goes back by \<open>n\<close>, the year follows,
  and the day of the month is kept unless the target month is shorter, in which case it is
  the target month's last day.
\<close>

definition sub_months :: "date \<Rightarrow> nat \<Rightarrow> date" where
  "sub_months d n =
     (let t = year d * 12 + int (month d) - 1 - int n;
          y = t div 12;
          m = nat (t mod 12) + 1
      in \<lparr>year = y, month = m, day = min (day d) (days_in_month y m)\<rparr>)"

definition digit :: "char \<Rightarrow> nat option" where
  "digit c = (let k = (of_char c :: nat) in if 48 \<le> k \<and> k \<le> 57 then Some (k - 48) else None)"

text \<open>
  \<open>pd.to_datetime(..., errors='coerce')\<close> on the values the quarter table can deliver:
  a blank stays undefined, and a text of the form \<open>YYYY-MM-DD\<close> that names a calendar day
  is that day. Any other text is coerced to undefined; the table holds none.
\<close>

fun parse_iso :: "string \<Rightarrow> date option" where
  "parse_iso [a, b, c, d, s1, e, f, s2, g, h] =
     (case (digit a, digit b, digit c, digit d, digit e, digit f, digit g, digit h) of
        (Some a', Some b', Some c', Some d', Some e', Some f', Some g', Some h') \<Rightarrow>
          (let y = int (a' * 1000 + b' * 100 + c' * 10 + d');
               m = e' * 10 + f';
               dd = g' * 10 + h'
           in if s1 = CHR ''-'' \<and> s2 = CHR ''-'' \<and> 1 \<le> m \<and> m \<le> 12
                 \<and> 1 \<le> dd \<and> dd \<le> days_in_month y m
              then Some \<lparr>year = y, month = m, day = dd\<rparr> else None)
      | _ \<Rightarrow> None)"
| "parse_iso _ = None"

definition to_datetime :: "string option \<Rightarrow> date option" where
  "to_datetime v = (case v of None \<Rightarrow> None | Some s \<Rightarrow> parse_iso s)"

section \<open>The fixed tables of the derivation\<close>

definition quarter_mapping :: "(string \<times> string) list" where
  "quarter_mapping =
     [(''Q1 2025'', ''2025-03-31''),
      (''Q2 2025'', ''2025-06-30''),
      (''Q3 2025'', ''2025-09-30''),
      (''Q4 2025'', ''2025-12-31''),
      (''Q1 2026'', ''2026-03-31''),
      (''Q2 2026'', ''2026-06-30''),
      (''Q3 2026'', ''2026-09-30''),
      (''Q4 2026'', ''2026-12-31'')]"

definition status_colors :: "(string \<times> string) list" where
  "status_colors =
     [(''Budget Evaluation'', ''#FFA500''),
      (''Evaluating'', ''#87CEEB''),
      (''In Progress'', ''#32CD32''),
      (''Completed'', ''#228B22''),
      (''On Hold'', ''#FF6347''),
      (''Planning'', ''#9370DB''),
      ('''', ''#D3D3D3'')]"

section \<open>The frame read from the upload\<close>

text \<open>
  \<open>pd.read_excel(uploaded_file, sheet_name=0, header=2)\<close> either raises, when the upload
  is not a readable workbook, or delivers the first sheet as a frame: the labels of the
  header row at offset 2 and the rows below it. The upload is modelled by that outcome.
  A frame is rectangular: a row shorter than the header is completed with blanks.
\<close>

record dataframe =
  columns :: "string list"
  data :: "cell list list"

datatype upload = NotASpreadsheet | Workbook dataframe

datatype error =
    Unreadable
  | KeyError string
  | NotASeries string
  | AttributeError
  | TypeError

definition rect :: "nat \<Rightarrow> cell list \<Rightarrow> cell list" where
  "rect n r = take n (r @ replicate (n - length r) NaN)"

definition read_excel :: "upload \<Rightarrow> error + dataframe" where
  "read_excel f =
     (case f of
        NotASpreadsheet \<Rightarrow> Inl Unreadable
      | Workbook df \<Rightarrow> Inr \<lparr>columns = columns df, data = map (rect (length (columns df))) (data df)\<rparr>)"

fun first_index :: "'a list \<Rightarrow> 'a \<Rightarrow> nat" where
  "first_index [] c = 0"
| "first_index (x # xs) c = (if x = c then 0 else Suc (first_index xs c))"

text \<open>
  \<open>df[c]\<close> selects one column by its label. An absent label raises \<open>KeyError\<close>; a label
  carried by several columns selects a frame instead of a series, on which the operations
  of this program raise.
\<close>

definition col_index :: "string list \<Rightarrow> string \<Rightarrow> error + nat" where
  "col_index cols c =
     (if count_list cols c = 0 then Inl (KeyError c)
      else if count_list cols c = 1 then Inr (first_index cols c)
      else Inl (NotASeries c))"

definition cell_at :: "cell list \<Rightarrow> nat \<Rightarrow> cell" where
  "cell_at r i = (if i < length r then r ! i else NaN)"

definition is_Str :: "cell \<Rightarrow> bool" where
  "is_Str c = (case c of Str s \<Rightarrow> True | _ \<Rightarrow> False)"

text \<open>\<open>df.dropna(subset=[c])\<close> keeps the rows whose cell in column \<open>c\<close> is not blank.\<close>

definition dropna :: "nat \<Rightarrow> cell list list \<Rightarrow> cell list list" where
  "dropna i rs = filter (\<lambda>r. cell_at r i \<noteq> NaN) rs"

text \<open>
  The \<open>.str\<close> accessor exists on a column of text only. A column read from a sheet is a
  text column when it holds at least one text cell, or when the sheet has no data row at
  all; a column of numbers and blanks is numeric, and \<open>.str\<close> raises on it.
\<close>

definition str_accessor :: "nat \<Rightarrow> cell list list \<Rightarrow> bool" where
  "str_accessor i rs = (rs = [] \<or> list_ex (\<lambda>r. is_Str (cell_at r i)) rs)"

text \<open>
  One element of \<open>df['Name'].str.strip() != ''\<close>: on a cell that is not text,
  \<open>.str.strip()\<close> gives a blank, and a blank differs from the empty string.
\<close>

definition name_not_empty :: "cell \<Rightarrow> bool" where
  "name_not_empty c = (case c of Str s \<Rightarrow> strip s \<noteq> '''' | _ \<Rightarrow> True)"

definition fillna :: "cell \<Rightarrow> cell" where
  "fillna c = (if c = NaN then Str '''' else c)"

definition astype_str :: "pandas \<Rightarrow> cell \<Rightarrow> string" where
  "astype_str lib c = (case c of NaN \<Rightarrow> ''nan'' | Str s \<Rightarrow> s | Num n \<Rightarrow> num_str lib n)"

text \<open>\<open>pd.to_numeric(..., errors='coerce')\<close> on one cell.\<close>

definition to_numeric :: "pandas \<Rightarrow> cell \<Rightarrow> rat option" where
  "to_numeric lib c = (case c of NaN \<Rightarrow> None | Str s \<Rightarrow> str_num lib s | Num n \<Rightarrow> Some n)"

text \<open>One element of \<open>df['Status'].map(status_colors).fillna('#D3D3D3')\<close>.\<close>

definition color_of :: "cell \<Rightarrow> string" where
  "color_of c =
     (case c of
        Str s \<Rightarrow> (case map_of status_colors s of Some col \<Rightarrow> col | None \<Rightarrow> ''#D3D3D3'')
      | _ \<Rightarrow> ''#D3D3D3'')"

section \<open>Loading and deriving\<close>

text \<open>
  A row of the processed frame: the cells of the sheet's own columns, and the five columns
  the program adds. The added columns are kept apart from the sheet's cells; where the
  program reads one of them back by its label, the model decides by \<open>assigned_col\<close>
  (defined below) whether that label still selects a single column.
\<close>

record drow =
  cells :: "cell list"
  Timeline :: string
  End_Date :: "date option"
  Start_Date :: "date option"
  Color :: string
  Priority_Numeric :: "rat option"

record frame =
  labels :: "string list"
  rows :: "drow list"

text \<open>
  The derived columns of one row; \<open>q\<close>, \<open>s\<close> and \<open>p\<close> are the positions of the columns
  \<open>Quarter Date\<close>, \<open>Status\<close> and \<open>Total Priority Score\<close>.
\<close>

definition derive :: "pandas \<Rightarrow> nat \<Rightarrow> nat \<Rightarrow> nat \<Rightarrow> cell list \<Rightarrow> drow" where
  "derive lib q s p r =
     (let tl = astype_str lib (cell_at r q);
          e = to_datetime (map_of quarter_mapping tl)
      in \<lparr>cells = r,
          Timeline = tl,
          End_Date = e,
          Start_Date = map_option (\<lambda>d. sub_months d 3) e,
          Color = color_of (cell_at r s),
          Priority_Numeric = to_numeric lib (cell_at r p)\<rparr>)"

text \<open>
  The two statements that remove the rows without a name, \<open>df.dropna(subset=['Name'])\<close>
  and \<open>df[df['Name'].str.strip() != '']\<close>: the label \<open>Name\<close> is looked up as the header
  spells it, the \<open>.str\<close> accessor raises on a name column that is not text, and
  otherwise the rows with a name are kept.
\<close>

definition clean_names :: "nat \<Rightarrow> cell list list \<Rightarrow> cell list list" where
  "clean_names n rs = filter (\<lambda>r. name_not_empty (cell_at r n)) (dropna n rs)"

definition drop_unnamed :: "dataframe \<Rightarrow> error + dataframe" where
  "drop_unnamed df =
     (case col_index (columns df) ''Name'' of
        Inl e \<Rightarrow> Inl e
      | Inr n \<Rightarrow>
          if \<not> str_accessor n (data df) then Inl AttributeError
          else Inr (df\<lparr>data := clean_names n (data df)\<rparr>))"

text \<open>
  \<open>df[c]\<close> read back after the assignment \<open>df[c] = ...\<close> of a derived column. The
  assignment appends the column when no label is \<open>c\<close> and overwrites the column that has
  the label otherwise; when several columns have the label it overwrites them all, and
  \<open>df[c]\<close> is then a frame, on which the next operation of the program raises.
\<close>

definition assigned_col :: "string list \<Rightarrow> string \<Rightarrow> error + unit" where
  "assigned_col cols c = (if count_list cols c \<le> 1 then Inr () else Inl (NotASeries c))"

text \<open>
  The function of the program. After the rows without a name are gone, the labels are
  trimmed and the blanks filled; then the columns are selected in the order of the source:
  \<open>Quarter Date\<close> (line 45), the derived \<open>Timeline\<close> (line 59) and \<open>End_Date\<close>
  (lines 60 and 63), \<open>Status\<close> (line 76) and \<open>Total Priority Score\<close> (line 79).
\<close>

definition load_and_process_data :: "pandas \<Rightarrow> upload option \<Rightarrow> error + frame option" where
  "load_and_process_data lib uploaded_file =
     (case uploaded_file of
        None \<Rightarrow> Inr None
      | Some f \<Rightarrow>
          (case read_excel f of
             Inl e \<Rightarrow> Inl e
           | Inr df0 \<Rightarrow>
               (case drop_unnamed df0 of
                  Inl e \<Rightarrow> Inl e
                | Inr df \<Rightarrow>
                    (let cols = map strip (columns df);
                         filled = map (map fillna) (data df)
                     in case col_index cols ''Quarter Date'' of
                          Inl e \<Rightarrow> Inl e
                        | Inr q \<Rightarrow>
                            (case assigned_col cols ''Timeline'' of
                               Inl e \<Rightarrow> Inl e
                             | Inr _ \<Rightarrow>
                                 (case assigned_col cols ''End_Date'' of
                                    Inl e \<Rightarrow> Inl e
                                  | Inr _ \<Rightarrow>
                                      (case col_index cols ''Status'' of
                                         Inl e \<Rightarrow> Inl e
                                       | Inr s \<Rightarrow>
                                           (case col_index cols ''Total Priority Score'' of
                                              Inl e \<Rightarrow> Inl e
                                            | Inr p \<Rightarrow>
                                                Inr (Some \<lparr>labels = cols,
                                                           rows = map (derive lib q s p) filled\<rparr>)))))))))"

section \<open>Filtering\<close>

text \<open>
  \<open>df[c]\<close> on the processed frame, for a label \<open>c\<close> of the sheet's own columns, and
  \<open>df[mask]\<close>, the rows at which a Boolean series holds. The column \<open>Timeline\<close> is
  the one the program has added; a frame the program returns carries that label at most
  once, so that \<open>df['Timeline']\<close> is a series there.
\<close>

definition series :: "frame \<Rightarrow> string \<Rightarrow> error + cell list" where
  "series df c =
     (case col_index (labels df) c of
        Inl e \<Rightarrow> Inl e
      | Inr i \<Rightarrow> Inr (map (\<lambda>r. cell_at (cells r) i) (rows df)))"

definition select :: "frame \<Rightarrow> bool list \<Rightarrow> frame" where
  "select df m = df\<lparr>rows := map snd (filter fst (zip m (rows df)))\<rparr>"

text \<open>Elementwise \<open>==\<close> of a series with a value: a blank equals nothing.\<close>

definition py_eq :: "cell \<Rightarrow> cell \<Rightarrow> bool" where
  "py_eq a b = (a \<noteq> NaN \<and> b \<noteq> NaN \<and> a = b)"

text \<open>
  The three filter statements of the script, on the values of the three sidebar widgets:
  the chosen quarter, the chosen statuses, and the chosen stakeholder.
\<close>

definition filtered_df :: "frame \<Rightarrow> string \<Rightarrow> cell list \<Rightarrow> cell \<Rightarrow> error + frame" where
  "filtered_df df selected_timeline selected_status selected_stakeholder =
     (let f1 = (if selected_timeline \<noteq> ''All''
                then select df (map (\<lambda>r. Timeline r = selected_timeline) (rows df))
                else df)
      in case (if Str ''All'' \<notin> set selected_status \<and> selected_status \<noteq> []
               then (case series f1 ''Status'' of
                       Inl e \<Rightarrow> Inl e
                     | Inr col \<Rightarrow> Inr (select f1 (map (\<lambda>c. c \<in> set selected_status) col)))
               else Inr f1) of
           Inl e \<Rightarrow> Inl e
         | Inr f2 \<Rightarrow>
             if selected_stakeholder \<noteq> Str ''All''
             then (case series f2 ''Requesting Stakeholder'' of
                     Inl e \<Rightarrow> Inl e
                   | Inr col \<Rightarrow> Inr (select f2 (map (\<lambda>c. py_eq c selected_stakeholder) col)))
             else Inr f2)"

section \<open>The chart rows and the counts\<close>

record gantt =
  Task :: string
  Start :: date
  Finish :: date
  Resource :: cell
  Status :: cell
  Tool :: cell
  Quarter :: string
  Full_Name :: cell

text \<open>\<open>row[c]\<close> inside the loop over the rows.\<close>

definition item :: "string list \<Rightarrow> drow \<Rightarrow> string \<Rightarrow> error + cell" where
  "item ls r c =
     (case col_index ls c of Inl e \<Rightarrow> Inl e | Inr i \<Rightarrow> Inr (cell_at (cells r) i))"

text \<open>
  The dictionary appended for one row that has both dates. Its entries are evaluated in
  the order written; slicing a name that is not text raises \<open>TypeError\<close>. The entry
  \<open>Timeline\<close> is the quarter label the program has added.
\<close>

definition gantt_entry :: "string list \<Rightarrow> drow \<Rightarrow> date \<Rightarrow> date \<Rightarrow> error + gantt" where
  "gantt_entry ls r s e =
     (case item ls r ''Name'' of
        Inl err \<Rightarrow> Inl err
      | Inr nm \<Rightarrow>
          (case nm of
             Str name \<Rightarrow>
               (case item ls r ''Requesting Stakeholder'' of
                  Inl err \<Rightarrow> Inl err
                | Inr res \<Rightarrow>
                    (case item ls r ''Status'' of
                       Inl err \<Rightarrow> Inl err
                     | Inr st \<Rightarrow>
                         (case item ls r ''Tool Name'' of
                            Inl err \<Rightarrow> Inl err
                          | Inr tool \<Rightarrow>
                              Inr \<lparr>Task = take 50 name @ (if length name > 50 then ''...'' else ''''),
                                   Start = s,
                                   Finish = e,
                                   Resource = res,
                                   Status = st,
                                   Tool = tool,
                                   Quarter = Timeline r,
                                   Full_Name = nm\<rparr>)))
           | _ \<Rightarrow> Inl TypeError))"

text \<open>
  The loop over the rows. The test \<open>pd.notna(row['Start_Date']) and pd.notna(row['End_Date'])\<close>
  reads the start date first and the end date only when the start date is defined; a label
  that several columns carry gives a series instead of a date, and the test raises.
\<close>

fun gantt_rows :: "string list \<Rightarrow> drow list \<Rightarrow> error + gantt list" where
  "gantt_rows ls [] = Inr []"
| "gantt_rows ls (r # rs) =
     (case assigned_col ls ''Start_Date'' of
        Inl err \<Rightarrow> Inl err
      | Inr _ \<Rightarrow>
          (case Start_Date r of
             None \<Rightarrow> gantt_rows ls rs
           | Some s \<Rightarrow>
               (case assigned_col ls ''End_Date'' of
                  Inl err \<Rightarrow> Inl err
                | Inr _ \<Rightarrow>
                    (case End_Date r of
                       None \<Rightarrow> gantt_rows ls rs
                     | Some e \<Rightarrow>
                         (case gantt_entry ls r s e of
                            Inl err \<Rightarrow> Inl err
                          | Inr g \<Rightarrow>
                              (case gantt_rows ls rs of
                                 Inl err \<Rightarrow> Inl err
                               | Inr gs \<Rightarrow> Inr (g # gs)))))))"

definition gantt_data :: "frame \<Rightarrow> error + gantt list" where
  "gantt_data df = gantt_rows (labels df) (rows df)"

text \<open>\<open>Series.unique()\<close> lists the values in the order of their first appearance.\<close>

fun unique :: "'a list \<Rightarrow> 'a list" where
  "unique [] = []"
| "unique (x # xs) = x # filter (\<lambda>y. y \<noteq> x) (unique xs)"

text \<open>
  Modelled from the spec: the order that \<open>Series.value_counts()\<close> gives to values of
  equal count. The library counts each value and lists the pairs by descending count; the
  order among equal counts is decided by the library's sort, outside this repository, and
  the specification asks for the order of first appearance. A blank is not counted (see
  \<open>notna\<close> below).
\<close>

definition value_counts :: "'a list \<Rightarrow> ('a \<times> nat) list" where
  "value_counts xs = sort_key (\<lambda>p. - int (snd p)) (map (\<lambda>v. (v, count_list xs v)) (unique xs))"

definition notna :: "cell list \<Rightarrow> cell list" where
  "notna col = filter (\<lambda>c. c \<noteq> NaN) col"

definition total_items :: "frame \<Rightarrow> nat" where
  "total_items df = length (rows df)"

definition status_counts :: "frame \<Rightarrow> error + (cell \<times> nat) list" where
  "status_counts df =
     (case series df ''Status'' of Inl e \<Rightarrow> Inl e | Inr col \<Rightarrow> Inr (value_counts (notna col)))"

definition stakeholder_counts :: "frame \<Rightarrow> error + (cell \<times> nat) list" where
  "stakeholder_counts df =
     (case series df ''Requesting Stakeholder'' of
        Inl e \<Rightarrow> Inl e
      | Inr col \<Rightarrow> Inr (value_counts (notna col)))"

text \<open>\<open>value_counts().sort_index()\<close>: the pairs by ascending label.\<close>

definition quarter_dist :: "frame \<Rightarrow> (string \<times> nat) list" where
  "quarter_dist df = sort_key fst (value_counts (map Timeline (rows df)))"

definition tool_counts :: "frame \<Rightarrow> error + (cell \<times> nat) list" where
  "tool_counts df =
     (case series df ''Tool Name'' of
        Inl e \<Rightarrow> Inl e
      | Inr col \<Rightarrow> Inr (take 5 (value_counts (notna (filter (\<lambda>c. c \<noteq> Str '''') col)))))"

section \<open>A sample upload\<close>

text \<open>
  A sheet of four rows over the six expected columns (the label of the quarter column
  carries a trailing space), with one blank and one missing name, and the frame the
  program makes of it.
\<close>

definition example_lib :: pandas where
  "example_lib = \<lparr>num_str = (\<lambda>n. if n = 5 then ''5'' else ''0''),
                  str_num = (\<lambda>s. if s = ''5'' then Some 5 else None)\<rparr>"

definition example_sheet :: dataframe where
  "example_sheet =
     \<lparr>columns = [''Name'', ''Requesting Stakeholder'', ''Quarter Date '', ''Tool Name'',
                 ''Status'', ''Total Priority Score''],
      data = [[Str ''X'', Str ''Ops'', Str ''Q1 2025'', Str ''A'', Str ''In Progress'', Num 5],
              [Str ''  '', Str ''Ops'', Str ''Q1 2025'', Str ''A'', Str ''Planning'', Num 1],
              [NaN, Str ''Ops'', Str ''Q2 2025'', Str ''B'', Str ''Planning'', Num 2],
              [Str ''Y'', Str ''Legal'', Str ''Q5 2099'', NaN, NaN, Str ''abc'']]\<rparr>"

definition example_X :: drow where
  "example_X =
     \<lparr>cells = [Str ''X'', Str ''Ops'', Str ''Q1 2025'', Str ''A'', Str ''In Progress'', Num 5],
      Timeline = ''Q1 2025'',
      End_Date = Some \<lparr>year = 2025, month = 3, day = 31\<rparr>,
      Start_Date = Some \<lparr>year = 2024, month = 12, day = 31\<rparr>,
      Color = ''#32CD32'',
      Priority_Numeric = Some 5\<rparr>"

definition example_Y :: drow where
  "example_Y =
     \<lparr>cells = [Str ''Y'', Str ''Legal'', Str ''Q5 2099'', Str '''', Str '''', Str ''abc''],
      Timeline = ''Q5 2099'',
      End_Date = None,
      Start_Date = None,
      Color = ''#D3D3D3'',
      Priority_Numeric = None\<rparr>"

definition example_frame :: frame where
  "example_frame =
     \<lparr>labels = [''Name'', ''Requesting Stakeholder'', ''Quarter Date'', ''Tool Name'',
                ''Status'', ''Total Priority Score''],
      rows = [example_X, example_Y]\<rparr>"

text \<open>
  The ingest contract in the words of the specification: the six labels it requires, and
  the uploads for which it announces an ingest error.
\<close>

definition required_columns :: "string list" where
  "required_columns = [''Name'', ''Requesting Stakeholder'', ''Quarter Date'', ''Tool Name'',
                       ''Status'', ''Total Priority Score'']"

definition spec_ingest_error :: "upload \<Rightarrow> bool" where
  "spec_ingest_error f =
     (case f of
        NotASpreadsheet \<Rightarrow> True
      | Workbook df \<Rightarrow> \<not> set required_columns \<subseteq> set (map strip (columns df)))"

text \<open>A sheet that has no column \<open>Tool Name\<close>, and the frame the program makes of it.\<close>

definition sheet_without_tool :: dataframe where
  "sheet_without_tool =
     \<lparr>columns = [''Name'', ''Requesting Stakeholder'', ''Quarter Date'', ''Status'',
                 ''Total Priority Score''],
      data = [[Str ''X'', Str ''Ops'', Str ''Q1 2025'', Str ''In Progress'', Num 5]]\<rparr>"

definition frame_without_tool :: frame where
  "frame_without_tool =
     \<lparr>labels = [''Name'', ''Requesting Stakeholder'', ''Quarter Date'', ''Status'',
                ''Total Priority Score''],
      rows = [\<lparr>cells = [Str ''X'', Str ''Ops'', Str ''Q1 2025'', Str ''In Progress'', Num 5],
               Timeline = ''Q1 2025'',
               End_Date = Some \<lparr>year = 2025, month = 3, day = 31\<rparr>,
               Start_Date = Some \<lparr>year = 2024, month = 12, day = 31\<rparr>,
               Color = ''#32CD32'',
               Priority_Numeric = Some 5\<rparr>]\<rparr>"

text \<open>
  The order the specification asks of the quarterly distribution, in its words: the labels
  ascend by the date of their quarter. Labels outside the quarter table have no date and
  are not constrained.
\<close>

definition chronological :: "string list \<Rightarrow> bool" where
  "chronological ls =
     sorted_wrt (\<lambda>a b. case (to_datetime (map_of quarter_mapping a),
                              to_datetime (map_of quarter_mapping b)) of
                         (Some x, Some y) \<Rightarrow> date_le x y
                       | _ \<Rightarrow> True) ls"

text \<open>A sheet with one request in the last quarter of 2025 and one in the first of 2026.\<close>

definition sheet_two_years :: dataframe where
  "sheet_two_years =
     \<lparr>columns = [''Name'', ''Requesting Stakeholder'', ''Quarter Date'', ''Tool Name'',
                 ''Status'', ''Total Priority Score''],
      data = [[Str ''X'', Str ''Ops'', Str ''Q4 2025'', Str ''A'', Str ''Planning'', Num 5],
              [Str ''Y'', Str ''Ops'', Str ''Q1 2026'', Str ''B'', Str ''Planning'', Num 5]]\<rparr>"

definition frame_two_years :: frame where
  "frame_two_years =
     \<lparr>labels = [''Name'', ''Requesting Stakeholder'', ''Quarter Date'', ''Tool Name'',
                ''Status'', ''Total Priority Score''],
      rows = [\<lparr>cells = [Str ''X'', Str ''Ops'', Str ''Q4 2025'', Str ''A'', Str ''Planning'', Num 5],
               Timeline = ''Q4 2025'',
               End_Date = Some \<lparr>year = 2025, month = 12, day = 31\<rparr>,
               Start_Date = Some \<lparr>year = 2025, month = 9, day = 30\<rparr>,
               Color = ''#9370DB'',
               Priority_Numeric = Some 5\<rparr>,
              \<lparr>cells = [Str ''Y'', Str ''Ops'', Str ''Q1 2026'', Str ''B'', Str ''Planning'', Num 5],
               Timeline = ''Q1 2026'',
               End_Date = Some \<lparr>year = 2026, month = 3, day = 31\<rparr>,
               Start_Date = Some \<lparr>year = 2025, month = 12, day = 31\<rparr>,
               Color = ''#9370DB'',
               Priority_Numeric = Some 5\<rparr>]\<rparr>"

text \<open>A frame of ten requests for the tools A, A, B, C, C, C, D, E, none, F.\<close>

definition tool_row :: "cell \<Rightarrow> drow" where
  "tool_row t =
     \<lparr>cells = [Str ''N'', Str ''Ops'', Str ''Q1 2025'', t, Str ''Planning'', Num 5],
      Timeline = ''Q1 2025'',
      End_Date = Some \<lparr>year = 2025, month = 3, day = 31\<rparr>,
      Start_Date = Some \<lparr>year = 2024, month = 12, day = 31\<rparr>,
      Color = ''#9370DB'',
      Priority_Numeric = Some 5\<rparr>"

definition frame_tools :: frame where
  "frame_tools =
     \<lparr>labels = [''Name'', ''Requesting Stakeholder'', ''Quarter Date'', ''Tool Name'',
                ''Status'', ''Total Priority Score''],
      rows = map tool_row [Str ''A'', Str ''A'', Str ''B'', Str ''C'', Str ''C'', Str ''C'',
                           Str ''D'', Str ''E'', Str '''', Str ''F'']\<rparr>"

text \<open>
  A sheet with the six expected columns and two more, labelled \<open>Timeline\<close> with and
  without a trailing space.
\<close>

definition sheet_two_timelines :: dataframe where
  "sheet_two_timelines =
     \<lparr>columns = [''Name'', ''Requesting Stakeholder'', ''Quarter Date'', ''Tool Name'',
                 ''Status'', ''Total Priority Score'', ''Timeline'', ''Timeline ''],
      data = [[Str ''X'', Str ''Ops'', Str ''Q1 2025'', Str ''A'', Str ''In Progress'', Num 5,
               Str ''now'', Str ''later'']]\<rparr>"

text \<open>
  A sheet whose name column holds a blank text and the number 7, and the frame the program
  makes of it: the one row whose name is the number.
\<close>

definition sheet_number_name :: dataframe where
  "sheet_number_name =
     \<lparr>columns = [''Name'', ''Requesting Stakeholder'', ''Quarter Date'', ''Tool Name'',
                 ''Status'', ''Total Priority Score''],
      data = [[Str ''  '', Str ''Ops'', Str ''Q1 2025'', Str ''A'', Str ''Planning'', Num 1],
              [Num 7, Str ''Ops'', Str ''Q1 2025'', Str ''A'', Str ''Planning'', Num 5]]\<rparr>"

definition frame_number_name :: frame where
  "frame_number_name =
     \<lparr>labels = [''Name'', ''Requesting Stakeholder'', ''Quarter Date'', ''Tool Name'',
                ''Status'', ''Total Priority Score''],
      rows = [\<lparr>cells = [Num 7, Str ''Ops'', Str ''Q1 2025'', Str ''A'', Str ''Planning'', Num 5],
               Timeline = ''Q1 2025'',
               End_Date = Some \<lparr>year = 2025, month = 3, day = 31\<rparr>,
               Start_Date = Some \<lparr>year = 2024, month = 12, day = 31\<rparr>,
               Color = ''#9370DB'',
               Priority_Numeric = Some 5\<rparr>]\<rparr>"

text \<open>
  A frame of five requests: one that meets the quarter \<open>Q1 2025\<close>, the status
  \<open>In Progress\<close> and the stakeholder \<open>Ops\<close>, three that miss exactly one of the three,
  and one that misses all.
\<close>

definition filter_row :: "string \<Rightarrow> string \<Rightarrow> string \<Rightarrow> string \<Rightarrow> drow" where
  "filter_row nm q st sh =
     \<lparr>cells = [Str nm, Str sh, Str q, Str ''A'', Str st, Num 5],
      Timeline = q,
      End_Date = None,
      Start_Date = None,
      Color = ''#D3D3D3'',
      Priority_Numeric = Some 5\<rparr>"

definition frame_filter :: frame where
  "frame_filter =
     \<lparr>labels = [''Name'', ''Requesting Stakeholder'', ''Quarter Date'', ''Tool Name'',
                ''Status'', ''Total Priority Score''],
      rows = [filter_row ''a'' ''Q1 2025'' ''In Progress'' ''Ops'',
              filter_row ''b'' ''Q2 2025'' ''In Progress'' ''Ops'',
              filter_row ''c'' ''Q1 2025'' ''Planning'' ''Ops'',
              filter_row ''d'' ''Q1 2025'' ''In Progress'' ''Legal'',
              filter_row ''e'' ''Q3 2025'' ''On Hold'' ''Finance'']\<rparr>"

section \<open>Properties of loading and deriving\<close>

lemma example_load:
  "load_and_process_data example_lib (Some (Workbook example_sheet)) = Inr (Some example_frame)"
  by code_simp

lemma two_years_load:
  "load_and_process_data example_lib (Some (Workbook sheet_two_years)) = Inr (Some frame_two_years)"
  by code_simp

lemma load_SomeE:
  assumes "load_and_process_data lib (Some f) = Inr (Some fr)"
  obtains df n q s p where "read_excel f = Inr df"
    and "col_index (columns df) ''Name'' = Inr n"
    and "str_accessor n (data df)"
    and "col_index (map strip (columns df)) ''Quarter Date'' = Inr q"
    and "count_list (map strip (columns df)) ''Timeline'' \<le> 1"
    and "count_list (map strip (columns df)) ''End_Date'' \<le> 1"
    and "col_index (map strip (columns df)) ''Status'' = Inr s"
    and "col_index (map strip (columns df)) ''Total Priority Score'' = Inr p"
    and "fr = \<lparr>labels = map strip (columns df),
               rows = map (derive lib q s p) (map (map fillna) (clean_names n (data df)))\<rparr>"
  using assms unfolding load_and_process_data_def drop_unnamed_def assigned_col_def
  by (auto simp: Let_def split: sum.splits if_splits)

lemma load_None: "load_and_process_data lib None = Inr None"
  by (simp add: load_and_process_data_def)

text \<open>
  A frame that the program returns carries the labels \<open>Timeline\<close> and \<open>End_Date\<close> at
  most once, so that reading these columns of a loaded frame gives a series.
\<close>

lemma load_derived_labels_once:
  assumes "load_and_process_data lib uploaded_file = Inr (Some fr)"
  shows "count_list (labels fr) ''Timeline'' \<le> 1 \<and> count_list (labels fr) ''End_Date'' \<le> 1"
proof (cases uploaded_file)
  case None
  with assms show ?thesis by (simp add: load_None)
next
  case (Some f)
  with assms have "load_and_process_data lib (Some f) = Inr (Some fr)" by simp
  then show ?thesis by (rule load_SomeE) simp
qed

lemma load_rows_derived:
  assumes "load_and_process_data lib uploaded_file = Inr (Some fr)" and "r \<in> set (rows fr)"
  obtains q s p cs where "r = derive lib q s p cs"
proof (cases uploaded_file)
  case None
  with assms(1) show ?thesis by (simp add: load_None)
next
  case (Some f)
  with assms(1) have "load_and_process_data lib (Some f) = Inr (Some fr)" by simp
  then show ?thesis
  proof (rule load_SomeE)
    fix df :: dataframe and n q s p
    assume "fr = \<lparr>labels = map strip (columns df),
               rows = map (derive lib q s p) (map (map fillna) (clean_names n (data df)))\<rparr>"
    with assms(2) obtain cs where "r = derive lib q s p cs" by auto
    then show ?thesis by (rule that)
  qed
qed

lemma parse_iso_month: "parse_iso s = Some d \<Longrightarrow> 1 \<le> month d \<and> month d \<le> 12"
  by (induction s rule: parse_iso.induct) (auto simp: Let_def split: option.splits if_splits)

lemma to_datetime_month: "to_datetime v = Some d \<Longrightarrow> 1 \<le> month d \<and> month d \<le> 12"
  by (auto simp: to_datetime_def dest: parse_iso_month split: option.splits)

lemma sub_months_le:
  assumes "1 \<le> month d" "month d \<le> 12"
  shows "date_le (sub_months d 3) d"
proof (cases "month d \<le> 3")
  case True
  define t where "t = year d * 12 + int (month d) - 1 - int 3"
  have "t div 12 < year d" using True assms unfolding t_def by linarith
  then show ?thesis
    unfolding date_le_def sub_months_def Let_def t_def by simp
next
  case False
  define t where "t = year d * 12 + int (month d) - 1 - int 3"
  have t: "t = year d * 12 + (int (month d) - 4)" unfolding t_def by simp
  have r: "0 \<le> int (month d) - 4" "int (month d) - 4 < 12" using False assms by linarith+
  have "t div 12 = year d" unfolding t using r by simp
  moreover have "t mod 12 = int (month d) - 4" unfolding t using r by simp
  then have "nat (t mod 12) + 1 < month d" using False by linarith
  ultimately show ?thesis
    unfolding date_le_def sub_months_def Let_def t_def by simp
qed

text \<open>What \<open>sub_months\<close> computes, field by field.\<close>

lemma sub_months_fields:
  "year (sub_months d n) * 12 + int (month (sub_months d n)) = year d * 12 + int (month d) - int n"
  "1 \<le> month (sub_months d n)"
  "month (sub_months d n) \<le> 12"
  "day (sub_months d n) =
     min (day d)
       (if month (sub_months d n) = 2
        then (if year (sub_months d n) mod 4 = 0
                 \<and> (year (sub_months d n) mod 100 \<noteq> 0 \<or> year (sub_months d n) mod 400 = 0)
              then 29 else 28)
        else if month (sub_months d n) \<in> {4, 6, 9, 11} then 30 else 31)"
proof -
  define t where "t = year d * 12 + int (month d) - 1 - int n"
  have y: "year (sub_months d n) = t div 12" and m: "month (sub_months d n) = nat (t mod 12) + 1"
    unfolding sub_months_def Let_def t_def by simp_all
  have r: "0 \<le> t mod 12" "t mod 12 < 12" by simp_all
  have m': "int (month (sub_months d n)) = t mod 12 + 1" unfolding m using r(1) by simp
  have "year (sub_months d n) * 12 + int (month (sub_months d n)) = (t div 12 * 12 + t mod 12) + 1"
    unfolding y m' by (simp only: add.assoc)
  also have "\<dots> = t + 1" by (simp only: div_mult_mod_eq)
  also have "\<dots> = year d * 12 + int (month d) - int n" unfolding t_def by simp
  finally show "year (sub_months d n) * 12 + int (month (sub_months d n))
               = year d * 12 + int (month d) - int n" .
  show "1 \<le> month (sub_months d n)" unfolding m by simp
  have "nat (t mod 12) < 12" using r by (simp only: nat_less_iff)
  then show "month (sub_months d n) \<le> 12" unfolding m by simp
  have dd: "day (sub_months d n) =
              min (day d) (days_in_month (year (sub_months d n)) (month (sub_months d n)))"
    by (simp add: sub_months_def Let_def)
  show "day (sub_months d n) =
     min (day d)
       (if month (sub_months d n) = 2
        then (if year (sub_months d n) mod 4 = 0
                 \<and> (year (sub_months d n) mod 100 \<noteq> 0 \<or> year (sub_months d n) mod 400 = 0)
              then 29 else 28)
        else if month (sub_months d n) \<in> {4, 6, 9, 11} then 30 else 31)"
    unfolding dd days_in_month_def leap_year_def by (simp only: insert_iff empty_iff simp_thms)
qed

text \<open>
  Claim C2. In every row of a frame that \<open>load_and_process_data\<close> returns, a defined
  end date comes with a defined start date that lies exactly three calendar months before
  it: counted in months, the start is the end less 3, with the year following; the day of
  the month is the end date's, or the last day of the start month when that month is
  shorter. The start date is therefore not after the end date. The offset 3 is a constant
  of the derivation: neither the upload nor any other argument can change it.
\<close>

theorem start_date_three_months_before_end:
  assumes "load_and_process_data lib uploaded_file = Inr (Some fr)"
    and "r \<in> set (rows fr)"
    and "End_Date r = Some e"
  shows "\<exists>b. Start_Date r = Some b
    \<and> year b * 12 + int (month b) = year e * 12 + int (month e) - 3
    \<and> 1 \<le> month b \<and> month b \<le> 12
    \<and> day b =
        min (day e)
          (if month b = 2
           then (if year b mod 4 = 0 \<and> (year b mod 100 \<noteq> 0 \<or> year b mod 400 = 0)
                 then 29 else 28)
           else if month b \<in> {4, 6, 9, 11} then 30 else 31)
    \<and> (year b < year e
        \<or> (year b = year e \<and> (month b < month e \<or> (month b = month e \<and> day b \<le> day e))))"
proof -
  from assms(1,2) obtain q s p cs where r: "r = derive lib q s p cs"
    by (rule load_rows_derived)
  from assms(3) have e: "to_datetime (map_of quarter_mapping (astype_str lib (cell_at cs q))) = Some e"
    unfolding r by (simp add: derive_def Let_def)
  then have b: "Start_Date r = Some (sub_months e 3)"
    unfolding r by (simp add: derive_def Let_def)
  from e have "1 \<le> month e \<and> month e \<le> 12" by (rule to_datetime_month)
  then have "date_le (sub_months e 3) e" by (simp add: sub_months_le)
  then have le: "year (sub_months e 3) < year e
        \<or> (year (sub_months e 3) = year e
            \<and> (month (sub_months e 3) < month e
                \<or> (month (sub_months e 3) = month e \<and> day (sub_months e 3) \<le> day e)))"
    unfolding date_le_def .
  have f1: "year (sub_months e 3) * 12 + int (month (sub_months e 3))
              = year e * 12 + int (month e) - 3"
    using sub_months_fields(1) [of e 3] by simp
  show ?thesis
    using b f1 sub_months_fields(2,3,4) [of e 3] le by (intro exI [of _ "sub_months e 3"] conjI)
qed

theorem start_date_three_months_before_end_witness:
  "load_and_process_data example_lib (Some (Workbook sheet_two_years)) = Inr (Some frame_two_years)
   \<and> map End_Date (rows frame_two_years)
       = [Some \<lparr>year = 2025, month = 12, day = 31\<rparr>, Some \<lparr>year = 2026, month = 3, day = 31\<rparr>]
   \<and> map Start_Date (rows frame_two_years)
       = [Some \<lparr>year = 2025, month = 9, day = 30\<rparr>, Some \<lparr>year = 2025, month = 12, day = 31\<rparr>]
   \<and> (\<exists>b. Start_Date (rows frame_two_years ! 0) = Some b
        \<and> year b * 12 + int (month b) = 2025 * 12 + 12 - 3
        \<and> day b = min 31 30)"
proof -
  have m: "rows frame_two_years ! 0 \<in> set (rows frame_two_years)"
    by (simp add: frame_two_years_def)
  have e: "End_Date (rows frame_two_years ! 0) = Some \<lparr>year = 2025, month = 12, day = 31\<rparr>"
    by (simp add: frame_two_years_def)
  have a: "map End_Date (rows frame_two_years)
       = [Some \<lparr>year = 2025, month = 12, day = 31\<rparr>, Some \<lparr>year = 2026, month = 3, day = 31\<rparr>]"
    by (simp add: frame_two_years_def)
  have b: "map Start_Date (rows frame_two_years)
       = [Some \<lparr>year = 2025, month = 9, day = 30\<rparr>, Some \<lparr>year = 2025, month = 12, day = 31\<rparr>]"
    by (simp add: frame_two_years_def)
  from start_date_three_months_before_end [OF two_years_load m e]
  obtain b' where s: "Start_Date (rows frame_two_years ! 0) = Some b'"
    and c: "year b' * 12 + int (month b') = 2025 * 12 + int 12 - 3"
    and d: "day b' =
        min 31
          (if month b' = 2
           then (if year b' mod 4 = 0 \<and> (year b' mod 100 \<noteq> 0 \<or> year b' mod 400 = 0)
                 then 29 else 28)
           else if month b' \<in> {4, 6, 9, 11} then 30 else 31)"
    by auto
  from s have "b' = \<lparr>year = 2025, month = 9, day = 30\<rparr>" by (simp add: frame_two_years_def)
  with s c have "\<exists>b. Start_Date (rows frame_two_years ! 0) = Some b
        \<and> year b * 12 + int (month b) = 2025 * 12 + 12 - 3
        \<and> day b = min 31 30"
    by simp
  with two_years_load a b show ?thesis by (intro conjI)
qed

subsection \<open>The quarter table\<close>

lemma parse_dates:
  "parse_iso ''2025-03-31'' = Some \<lparr>year = 2025, month = 3, day = 31\<rparr>"
  "parse_iso ''2025-06-30'' = Some \<lparr>year = 2025, month = 6, day = 30\<rparr>"
  "parse_iso ''2025-09-30'' = Some \<lparr>year = 2025, month = 9, day = 30\<rparr>"
  "parse_iso ''2025-12-31'' = Some \<lparr>year = 2025, month = 12, day = 31\<rparr>"
  "parse_iso ''2026-03-31'' = Some \<lparr>year = 2026, month = 3, day = 31\<rparr>"
  "parse_iso ''2026-06-30'' = Some \<lparr>year = 2026, month = 6, day = 30\<rparr>"
  "parse_iso ''2026-09-30'' = Some \<lparr>year = 2026, month = 9, day = 30\<rparr>"
  "parse_iso ''2026-12-31'' = Some \<lparr>year = 2026, month = 12, day = 31\<rparr>"
  by code_simp+

lemma quarter_end:
  "to_datetime (map_of quarter_mapping l) =
     (if l = ''Q1 2025'' then Some \<lparr>year = 2025, month = 3, day = 31\<rparr>
      else if l = ''Q2 2025'' then Some \<lparr>year = 2025, month = 6, day = 30\<rparr>
      else if l = ''Q3 2025'' then Some \<lparr>year = 2025, month = 9, day = 30\<rparr>
      else if l = ''Q4 2025'' then Some \<lparr>year = 2025, month = 12, day = 31\<rparr>
      else if l = ''Q1 2026'' then Some \<lparr>year = 2026, month = 3, day = 31\<rparr>
      else if l = ''Q2 2026'' then Some \<lparr>year = 2026, month = 6, day = 30\<rparr>
      else if l = ''Q3 2026'' then Some \<lparr>year = 2026, month = 9, day = 30\<rparr>
      else if l = ''Q4 2026'' then Some \<lparr>year = 2026, month = 12, day = 31\<rparr>
      else None)"
  unfolding quarter_mapping_def to_datetime_def
  by (simp add: parse_dates del: parse_iso.simps)

lemma color_in_progress: "color_of (Str ''In Progress'') = ''#32CD32''"
  by code_simp

lemma sub_q1:
  "sub_months \<lparr>year = 2025, month = 3, day = 31\<rparr> 3 = \<lparr>year = 2024, month = 12, day = 31\<rparr>"
  by (simp add: sub_months_def days_in_month_def)

lemma derive_fields:
  "cells (derive lib q s p cs) = cs"
  "Timeline (derive lib q s p cs) = astype_str lib (cell_at cs q)"
  "End_Date (derive lib q s p cs) =
     to_datetime (map_of quarter_mapping (astype_str lib (cell_at cs q)))"
  "Start_Date (derive lib q s p cs) =
     map_option (\<lambda>d. sub_months d 3) (End_Date (derive lib q s p cs))"
  "Color (derive lib q s p cs) = color_of (cell_at cs s)"
  "Priority_Numeric (derive lib q s p cs) = to_numeric lib (cell_at cs p)"
  by (simp_all add: derive_def Let_def)

lemma count_list_distinct: "distinct xs \<Longrightarrow> count_list xs x = (if x \<in> set xs then 1 else 0)"
  by (induction xs) auto

lemma col_index_distinct:
  "distinct cols \<Longrightarrow>
   col_index cols c = (if c \<in> set cols then Inr (first_index cols c) else Inl (KeyError c))"
  by (simp add: col_index_def count_list_distinct)

lemma col_index_InrD: "col_index cols c = Inr i \<Longrightarrow> i = first_index cols c \<and> c \<in> set cols"
  by (auto simp: col_index_def count_list_0_iff split: if_splits)

lemma first_index_less: "c \<in> set cols \<Longrightarrow> first_index cols c < length cols"
  by (induction cols) auto

lemma cell_at_rect: "i < n \<Longrightarrow> cell_at (rect n r) i = cell_at r i"
  by (auto simp: cell_at_def rect_def nth_append)

lemma str_accessor_rect: "i < n \<Longrightarrow> str_accessor i (map (rect n) rs) = str_accessor i rs"
  by (simp add: str_accessor_def list_ex_iff cell_at_rect)

lemma cell_at_fillna:
  "cell_at r n \<noteq> NaN \<Longrightarrow> cell_at (map fillna r) n = cell_at r n"
  by (auto simp: cell_at_def fillna_def)

lemma clean_names_filter:
  "clean_names n rs = filter (\<lambda>r. cell_at r n \<noteq> NaN \<and> name_not_empty (cell_at r n)) rs"
  by (simp add: clean_names_def dropna_def conj_commute)

lemma name_not_empty_iff:
  "cell_at r n \<noteq> NaN \<and> name_not_empty (cell_at r n) \<longleftrightarrow>
   \<not> (cell_at r n = NaN \<or> (\<exists>t. cell_at r n = Str t \<and> strip t = ''''))"
  by (auto simp: name_not_empty_def split: cell.splits)

text \<open>
  The frame of a loaded sheet, row by row: the rows are the derived rows of the sheet's
  rows that have a name, in their order, at the positions of the trimmed labels.
\<close>

lemma load_rows:
  assumes "load_and_process_data lib (Some (Workbook df)) = Inr (Some fr)"
  shows "col_index (columns df) ''Name'' = Inr (first_index (columns df) ''Name'')"
    and "labels fr = map strip (columns df)"
    and "col_index (labels fr) ''Quarter Date'' = Inr (first_index (labels fr) ''Quarter Date'')"
    and "col_index (labels fr) ''Status'' = Inr (first_index (labels fr) ''Status'')"
    and "rows fr =
           map (derive lib (first_index (labels fr) ''Quarter Date'')
                           (first_index (labels fr) ''Status'')
                           (first_index (labels fr) ''Total Priority Score''))
             (map (map fillna)
                (filter (\<lambda>r. \<not> (cell_at r (first_index (columns df) ''Name'') = NaN
                              \<or> (\<exists>t. cell_at r (first_index (columns df) ''Name'') = Str t
                                      \<and> strip t = '''')))
                   (map (rect (length (columns df))) (data df))))"
proof -
  from assms obtain d :: dataframe and n q s p where rd: "read_excel (Workbook df) = Inr d"
    and n: "col_index (columns d) ''Name'' = Inr n"
    and q: "col_index (map strip (columns d)) ''Quarter Date'' = Inr q"
    and s: "col_index (map strip (columns d)) ''Status'' = Inr s"
    and p: "col_index (map strip (columns d)) ''Total Priority Score'' = Inr p"
    and fr: "fr = \<lparr>labels = map strip (columns d),
               rows = map (derive lib q s p) (map (map fillna) (clean_names n (data d)))\<rparr>"
    by (rule load_SomeE)
  from rd have d: "columns d = columns df" "data d = map (rect (length (columns df))) (data df)"
    by (auto simp: read_excel_def)
  have l: "labels fr = map strip (columns df)" unfolding fr by (simp add: d)
  from n have n': "n = first_index (columns df) ''Name''"
    using col_index_InrD [of "columns d" "''Name''" n] by (simp add: d)
  from q have q': "q = first_index (labels fr) ''Quarter Date''"
    using col_index_InrD [of "map strip (columns d)" "''Quarter Date''" q] by (simp add: d l)
  from s have s': "s = first_index (labels fr) ''Status''"
    using col_index_InrD [of "map strip (columns d)" "''Status''" s] by (simp add: d l)
  from p have p': "p = first_index (labels fr) ''Total Priority Score''"
    using col_index_InrD [of "map strip (columns d)" "''Total Priority Score''" p]
    by (simp add: d l)
  show "col_index (columns df) ''Name'' = Inr (first_index (columns df) ''Name'')"
    using n unfolding n' d .
  show "labels fr = map strip (columns df)" by (rule l)
  show "col_index (labels fr) ''Quarter Date'' = Inr (first_index (labels fr) ''Quarter Date'')"
    using q unfolding q' l d .
  show "col_index (labels fr) ''Status'' = Inr (first_index (labels fr) ''Status'')"
    using s unfolding s' l d .
  have "rows fr = map (derive lib q s p) (map (map fillna) (clean_names n (data d)))"
    unfolding fr by simp
  then show "rows fr =
           map (derive lib (first_index (labels fr) ''Quarter Date'')
                           (first_index (labels fr) ''Status'')
                           (first_index (labels fr) ''Total Priority Score''))
             (map (map fillna)
                (filter (\<lambda>r. \<not> (cell_at r (first_index (columns df) ''Name'') = NaN
                              \<or> (\<exists>t. cell_at r (first_index (columns df) ''Name'') = Str t
                                      \<and> strip t = '''')))
                   (map (rect (length (columns df))) (data df))))"
    unfolding clean_names_filter name_not_empty_iff d q' s' p' n' .
qed

lemma list_all2_map_same:
  "list_all2 P xs (map f xs) \<longleftrightarrow> (\<forall>x \<in> set xs. P x (f x))"
  by (induction xs) auto

text \<open>
  Claim C3. When a sheet loads, each row of the sheet that has a name gives, in order, one
  row of the frame; a row whose quarter cell is the text \<open>l\<close> gets \<open>l\<close> as its quarter
  label and the end date that the table of eight entries, \<open>Q1 2025\<close> to \<open>Q4 2026\<close>,
  gives for \<open>l\<close> (the last day of that quarter), and no end date for any other text. A
  row whose quarter cell is \<open>Q1 2025\<close> and whose status cell is \<open>In Progress\<close> gets the
  end date 2025-03-31, the start date 2024-12-31 and the color \<open>#32CD32\<close>.
\<close>

theorem quarter_table_and_scenario:
  assumes "load_and_process_data lib (Some (Workbook df)) = Inr (Some fr)"
  shows "list_all2
     (\<lambda>cs r.
        (\<forall>l. cell_at cs (first_index (map strip (columns df)) ''Quarter Date'') = Str l \<longrightarrow>
           Timeline r = l
           \<and> End_Date r =
              (if l = ''Q1 2025'' then Some \<lparr>year = 2025, month = 3, day = 31\<rparr>
               else if l = ''Q2 2025'' then Some \<lparr>year = 2025, month = 6, day = 30\<rparr>
               else if l = ''Q3 2025'' then Some \<lparr>year = 2025, month = 9, day = 30\<rparr>
               else if l = ''Q4 2025'' then Some \<lparr>year = 2025, month = 12, day = 31\<rparr>
               else if l = ''Q1 2026'' then Some \<lparr>year = 2026, month = 3, day = 31\<rparr>
               else if l = ''Q2 2026'' then Some \<lparr>year = 2026, month = 6, day = 30\<rparr>
               else if l = ''Q3 2026'' then Some \<lparr>year = 2026, month = 9, day = 30\<rparr>
               else if l = ''Q4 2026'' then Some \<lparr>year = 2026, month = 12, day = 31\<rparr>
               else None))
        \<and> (cell_at cs (first_index (map strip (columns df)) ''Quarter Date'') = Str ''Q1 2025''
           \<and> cell_at cs (first_index (map strip (columns df)) ''Status'') = Str ''In Progress''
           \<longrightarrow> End_Date r = Some \<lparr>year = 2025, month = 3, day = 31\<rparr>
               \<and> Start_Date r = Some \<lparr>year = 2024, month = 12, day = 31\<rparr>
               \<and> Color r = ''#32CD32''))
     (filter (\<lambda>cs. \<not> (cell_at cs (first_index (columns df) ''Name'') = NaN
                    \<or> (\<exists>t. cell_at cs (first_index (columns df) ''Name'') = Str t
                            \<and> strip t = '''')))
        (map (rect (length (columns df))) (data df)))
     (rows fr)"
proof -
  let ?q = "first_index (map strip (columns df)) ''Quarter Date''"
  let ?s = "first_index (map strip (columns df)) ''Status''"
  let ?p = "first_index (map strip (columns df)) ''Total Priority Score''"
  have table: "Timeline (derive lib ?q ?s ?p (map fillna cs)) = l
     \<and> End_Date (derive lib ?q ?s ?p (map fillna cs)) =
              (if l = ''Q1 2025'' then Some \<lparr>year = 2025, month = 3, day = 31\<rparr>
               else if l = ''Q2 2025'' then Some \<lparr>year = 2025, month = 6, day = 30\<rparr>
               else if l = ''Q3 2025'' then Some \<lparr>year = 2025, month = 9, day = 30\<rparr>
               else if l = ''Q4 2025'' then Some \<lparr>year = 2025, month = 12, day = 31\<rparr>
               else if l = ''Q1 2026'' then Some \<lparr>year = 2026, month = 3, day = 31\<rparr>
               else if l = ''Q2 2026'' then Some \<lparr>year = 2026, month = 6, day = 30\<rparr>
               else if l = ''Q3 2026'' then Some \<lparr>year = 2026, month = 9, day = 30\<rparr>
               else if l = ''Q4 2026'' then Some \<lparr>year = 2026, month = 12, day = 31\<rparr>
               else None)"
    if h: "cell_at cs ?q = Str l" for cs l
  proof -
    from h have "cell_at (map fillna cs) ?q = Str l" by (simp add: cell_at_fillna)
    then have a: "astype_str lib (cell_at (map fillna cs) ?q) = l" by (simp add: astype_str_def)
    show ?thesis unfolding derive_fields(2,3) a by (simp only: quarter_end simp_thms)
  qed
  have scen: "End_Date (derive lib ?q ?s ?p (map fillna cs)) = Some \<lparr>year = 2025, month = 3, day = 31\<rparr>
      \<and> Start_Date (derive lib ?q ?s ?p (map fillna cs)) = Some \<lparr>year = 2024, month = 12, day = 31\<rparr>
      \<and> Color (derive lib ?q ?s ?p (map fillna cs)) = ''#32CD32''"
    if h: "cell_at cs ?q = Str ''Q1 2025''" "cell_at cs ?s = Str ''In Progress''" for cs
  proof -
    from table [OF h(1)]
    have e: "End_Date (derive lib ?q ?s ?p (map fillna cs)) = Some \<lparr>year = 2025, month = 3, day = 31\<rparr>"
      by simp
    from h(2) have "cell_at (map fillna cs) ?s = Str ''In Progress''" by (simp add: cell_at_fillna)
    then have c: "Color (derive lib ?q ?s ?p (map fillna cs)) = ''#32CD32''"
      unfolding derive_fields(5) by (simp only: color_in_progress)
    have "Start_Date (derive lib ?q ?s ?p (map fillna cs)) = Some \<lparr>year = 2024, month = 12, day = 31\<rparr>"
      unfolding derive_fields(4) e by (simp add: sub_q1)
    with e c show ?thesis by (intro conjI)
  qed
  have rows: "rows fr = map (\<lambda>cs. derive lib ?q ?s ?p (map fillna cs))
                (filter (\<lambda>cs. \<not> (cell_at cs (first_index (columns df) ''Name'') = NaN
                    \<or> (\<exists>t. cell_at cs (first_index (columns df) ''Name'') = Str t
                            \<and> strip t = '''')))
                   (map (rect (length (columns df))) (data df)))"
    using load_rows(5) [OF assms] unfolding load_rows(2) [OF assms] by (simp add: comp_def)
  show ?thesis
    unfolding rows list_all2_map_same using table scen by blast
qed

theorem quarter_table_and_scenario_witness:
  "load_and_process_data example_lib (Some (Workbook example_sheet)) = Inr (Some example_frame)
   \<and> first_index (map strip (columns example_sheet)) ''Quarter Date'' = 2
   \<and> first_index (map strip (columns example_sheet)) ''Status'' = 4
   \<and> map (\<lambda>cs. cell_at cs 2)
        (filter (\<lambda>cs. \<not> (cell_at cs (first_index (columns example_sheet) ''Name'') = NaN
                    \<or> (\<exists>t. cell_at cs (first_index (columns example_sheet) ''Name'') = Str t
                            \<and> strip t = '''')))
           (map (rect (length (columns example_sheet))) (data example_sheet)))
       = [Str ''Q1 2025'', Str ''Q5 2099'']
   \<and> map End_Date (rows example_frame) = [Some \<lparr>year = 2025, month = 3, day = 31\<rparr>, None]
   \<and> map Start_Date (rows example_frame) = [Some \<lparr>year = 2024, month = 12, day = 31\<rparr>, None]
   \<and> map Color (rows example_frame) = [''#32CD32'', ''#D3D3D3'']
   \<and> length (rows example_frame)
       = length (filter (\<lambda>cs. \<not> (cell_at cs (first_index (columns example_sheet) ''Name'') = NaN
                    \<or> (\<exists>t. cell_at cs (first_index (columns example_sheet) ''Name'') = Str t
                            \<and> strip t = '''')))
           (map (rect (length (columns example_sheet))) (data example_sheet)))"
proof -
  have a: "first_index (map strip (columns example_sheet)) ''Quarter Date'' = 2" by code_simp
  have b: "first_index (map strip (columns example_sheet)) ''Status'' = 4" by code_simp
  have n: "first_index (columns example_sheet) ''Name'' = 0" by code_simp
  have k: "filter (\<lambda>cs. \<not> (cell_at cs 0 = NaN \<or> (\<exists>t. cell_at cs 0 = Str t \<and> strip t = '''')))
           (map (rect (length (columns example_sheet))) (data example_sheet))
         = [[Str ''X'', Str ''Ops'', Str ''Q1 2025'', Str ''A'', Str ''In Progress'', Num 5],
            [Str ''Y'', Str ''Legal'', Str ''Q5 2099'', NaN, NaN, Str ''abc'']]"
    by (simp add: example_sheet_def rect_def cell_at_def strip_def isspace_def)
  have c: "map (\<lambda>cs. cell_at cs 2)
        (filter (\<lambda>cs. \<not> (cell_at cs (first_index (columns example_sheet) ''Name'') = NaN
                    \<or> (\<exists>t. cell_at cs (first_index (columns example_sheet) ''Name'') = Str t
                            \<and> strip t = '''')))
           (map (rect (length (columns example_sheet))) (data example_sheet)))
       = [Str ''Q1 2025'', Str ''Q5 2099'']"
    unfolding n k by (simp add: cell_at_def)
  have d: "map End_Date (rows example_frame) = [Some \<lparr>year = 2025, month = 3, day = 31\<rparr>, None]"
    by (simp add: example_frame_def example_X_def example_Y_def)
  have e: "map Start_Date (rows example_frame) = [Some \<lparr>year = 2024, month = 12, day = 31\<rparr>, None]"
    by (simp add: example_frame_def example_X_def example_Y_def)
  have f: "map Color (rows example_frame) = [''#32CD32'', ''#D3D3D3'']"
    by (simp add: example_frame_def example_X_def example_Y_def)
  from quarter_table_and_scenario [OF example_load]
  have g: "length (rows example_frame)
       = length (filter (\<lambda>cs. \<not> (cell_at cs (first_index (columns example_sheet) ''Name'') = NaN
                    \<or> (\<exists>t. cell_at cs (first_index (columns example_sheet) ''Name'') = Str t
                            \<and> strip t = '''')))
           (map (rect (length (columns example_sheet))) (data example_sheet)))"
    by (rule list_all2_lengthD [symmetric])
  from example_load a b c d e f g show ?thesis by (intro conjI)
qed

subsection \<open>Rows without a name\<close>

lemma clean_names_idem:
  "clean_names n (map (map fillna) (clean_names n rs)) = map (map fillna) (clean_names n rs)"
proof -
  have "filter (\<lambda>r. cell_at r n \<noteq> NaN \<and> name_not_empty (cell_at r n))
          (map (map fillna) (clean_names n rs))
        = map (map fillna) (clean_names n rs)"
    unfolding filter_id_conv by (auto simp: clean_names_filter cell_at_fillna)
  then show ?thesis by (simp only: clean_names_filter)
qed

lemma nth_first_index: "c \<in> set xs \<Longrightarrow> xs ! first_index xs c = c"
  by (induction xs) auto

lemma first_index_unique:
  "count_list xs c = 1 \<Longrightarrow> i < length xs \<Longrightarrow> xs ! i = c \<Longrightarrow> first_index xs c = i"
proof (induction xs arbitrary: i)
  case Nil
  then show ?case by simp
next
  case (Cons x xs)
  show ?case
  proof (cases "x = c")
    case True
    with Cons.prems(1) have "count_list xs c = 0" by simp
    then have notin: "c \<notin> set xs" by (simp add: count_list_0_iff)
    have "i = 0"
    proof (rule ccontr)
      assume "i \<noteq> 0"
      then obtain j where j: "i = Suc j" by (cases i) auto
      with Cons.prems(2,3) have "j < length xs" "xs ! j = c" by simp_all
      then have "c \<in> set xs" by (metis nth_mem)
      with notin show False by simp
    qed
    with True show ?thesis by simp
  next
    case False
    with Cons.prems(3) obtain j where j: "i = Suc j" by (cases i) auto
    from False Cons.prems(1) have "count_list xs c = 1" by simp
    moreover from j Cons.prems(2,3) have "j < length xs" "xs ! j = c" by simp_all
    ultimately have "first_index xs c = j" by (rule Cons.IH)
    with False j show ?thesis by simp
  qed
qed

lemma strip_Name: "strip ''Name'' = ''Name''"
  by code_simp

text \<open>
  Claim C7, as the specification states it, fails in its last part. A sheet whose names
  are a blank text and the number 7 loads, and its one remaining row has the number as its
  name; on that output the two statements that drop the rows without a name do not return
  the output unchanged: the \<open>.str\<close> accessor raises, because the name column no longer
  holds any text.
\<close>

theorem drop_on_cleaned_output_raises:
  "load_and_process_data example_lib (Some (Workbook sheet_number_name))
     = Inr (Some frame_number_name)
   \<and> map (\<lambda>r. cell_at (cells r) 0) (rows frame_number_name) = [Num 7]
   \<and> drop_unnamed \<lparr>columns = labels frame_number_name,
                    data = map cells (rows frame_number_name)\<rparr>
       = Inl AttributeError"
  by code_simp

text \<open>
  Claim C7, amended. When a sheet loads, the rows of the result are exactly the rows of
  the sheet whose name cell is neither missing nor empty after trimming, in their order
  (blanks in the other cells filled); so no row of the result has a missing or blank name.
  Dropping the rows without a name once more from the result returns the result unchanged,
  provided the result still carries the label \<open>Name\<close> once and is empty or holds at least
  one name that is text.
\<close>

theorem blank_names_dropped:
  assumes "load_and_process_data lib (Some (Workbook df)) = Inr (Some fr)"
  shows "col_index (columns df) ''Name'' = Inr (first_index (columns df) ''Name'')
    \<and> map cells (rows fr) =
        map (map fillna)
          (filter (\<lambda>r. \<not> (cell_at r (first_index (columns df) ''Name'') = NaN
                        \<or> (\<exists>t. cell_at r (first_index (columns df) ''Name'') = Str t
                                \<and> strip t = '''')))
             (map (rect (length (columns df))) (data df)))
    \<and> (\<forall>r \<in> set (rows fr).
          cell_at (cells r) (first_index (columns df) ''Name'') \<noteq> NaN
          \<and> (\<forall>t. cell_at (cells r) (first_index (columns df) ''Name'') = Str t
                 \<longrightarrow> strip t \<noteq> ''''))
    \<and> (col_index (labels fr) ''Name'' = Inr k
        \<and> (rows fr = [] \<or> (\<exists>r \<in> set (rows fr). is_Str (cell_at (cells r) k)))
        \<longrightarrow> drop_unnamed \<lparr>columns = labels fr, data = map cells (rows fr)\<rparr>
              = Inr \<lparr>columns = labels fr, data = map cells (rows fr)\<rparr>)"
proof -
  let ?n = "first_index (columns df) ''Name''"
  let ?kept = "filter (\<lambda>r. \<not> (cell_at r ?n = NaN \<or> (\<exists>t. cell_at r ?n = Str t \<and> strip t = '''')))
                 (map (rect (length (columns df))) (data df))"
  note c = load_rows(1) [OF assms]
  have 1: "map cells (rows fr) = map (map fillna) ?kept"
    unfolding load_rows(5) [OF assms] by (simp add: derive_fields(1) comp_def)
  have 2: "cell_at (cells r) ?n \<noteq> NaN \<and> (\<forall>t. cell_at (cells r) ?n = Str t \<longrightarrow> strip t \<noteq> '''')"
    if "r \<in> set (rows fr)" for r
  proof -
    from that have "cells r \<in> set (map cells (rows fr))" by simp
    then obtain r0 where r0: "cells r = map fillna r0"
      and k: "\<not> (cell_at r0 ?n = NaN \<or> (\<exists>t. cell_at r0 ?n = Str t \<and> strip t = ''''))"
      unfolding 1 by auto
    from k have "cell_at (cells r) ?n = cell_at r0 ?n" unfolding r0 by (simp add: cell_at_fillna)
    with k show ?thesis by auto
  qed
  have kept: "?kept = clean_names ?n (map (rect (length (columns df))) (data df))"
    unfolding clean_names_filter name_not_empty_iff ..
  have 3: "clean_names ?n (map cells (rows fr)) = map cells (rows fr)"
    unfolding 1 kept by (rule clean_names_idem)
  have 4: "drop_unnamed \<lparr>columns = labels fr, data = map cells (rows fr)\<rparr>
              = Inr \<lparr>columns = labels fr, data = map cells (rows fr)\<rparr>"
    if k: "col_index (labels fr) ''Name'' = Inr k"
      and t: "rows fr = [] \<or> (\<exists>r \<in> set (rows fr). is_Str (cell_at (cells r) k))"
  proof -
    from c have mem: "''Name'' \<in> set (columns df)" by (auto dest: col_index_InrD)
    from k have one: "count_list (labels fr) ''Name'' = 1"
      by (auto simp: col_index_def split: if_splits)
    have lt: "?n < length (labels fr)"
      unfolding load_rows(2) [OF assms] using mem by (simp add: first_index_less)
    have "labels fr ! ?n = strip (columns df ! ?n)"
      unfolding load_rows(2) [OF assms] using mem by (simp add: first_index_less)
    also have "\<dots> = ''Name''" using mem by (simp only: nth_first_index strip_Name)
    finally have "first_index (labels fr) ''Name'' = ?n"
      using one lt by (intro first_index_unique)
    with k have k': "k = ?n" by (auto dest: col_index_InrD)
    have acc: "str_accessor ?n (map cells (rows fr))"
      using t unfolding k' by (auto simp: str_accessor_def list_ex_iff)
    show ?thesis
      using k acc 3 unfolding k' by (simp add: drop_unnamed_def)
  qed
  from c 1 2 4 show ?thesis by blast
qed

theorem blank_names_dropped_witness:
  "load_and_process_data example_lib (Some (Workbook example_sheet)) = Inr (Some example_frame)
   \<and> length (data example_sheet) = 4
   \<and> first_index (columns example_sheet) ''Name'' = 0
   \<and> map (\<lambda>r. cell_at (cells r) 0) (rows example_frame) = [Str ''X'', Str ''Y'']
   \<and> col_index (labels example_frame) ''Name'' = Inr 0
   \<and> is_Str (cell_at (cells example_X) 0)
   \<and> drop_unnamed \<lparr>columns = labels example_frame, data = map cells (rows example_frame)\<rparr>
       = Inr \<lparr>columns = labels example_frame, data = map cells (rows example_frame)\<rparr>"
proof -
  have i: "first_index (columns example_sheet) ''Name'' = 0"
    by (simp add: example_sheet_def)
  have l: "length (data example_sheet) = 4"
    by (simp add: example_sheet_def)
  have m: "map (\<lambda>r. cell_at (cells r) 0) (rows example_frame) = [Str ''X'', Str ''Y'']"
    by (simp add: example_frame_def example_X_def example_Y_def cell_at_def)
  have k: "col_index (labels example_frame) ''Name'' = Inr 0" by code_simp
  have s: "is_Str (cell_at (cells example_X) 0)" by code_simp
  have x: "example_X \<in> set (rows example_frame)" by (simp add: example_frame_def)
  from s x have t: "rows example_frame = []
      \<or> (\<exists>r \<in> set (rows example_frame). is_Str (cell_at (cells r) 0))"
    by blast
  from blank_names_dropped [OF example_load, of 0] k t
  have d: "drop_unnamed \<lparr>columns = labels example_frame, data = map cells (rows example_frame)\<rparr>
       = Inr \<lparr>columns = labels example_frame, data = map cells (rows example_frame)\<rparr>"
    by blast
  from example_load l i m k s d show ?thesis by (intro conjI)
qed

subsection \<open>When loading fails\<close>

lemma load_success_iff:
  "(\<exists>fr. load_and_process_data lib (Some (Workbook df)) = Inr (Some fr)) \<longleftrightarrow>
     (\<exists>n q s p. col_index (columns df) ''Name'' = Inr n
        \<and> str_accessor n (map (rect (length (columns df))) (data df))
        \<and> col_index (map strip (columns df)) ''Quarter Date'' = Inr q
        \<and> count_list (map strip (columns df)) ''Timeline'' \<le> 1
        \<and> count_list (map strip (columns df)) ''End_Date'' \<le> 1
        \<and> col_index (map strip (columns df)) ''Status'' = Inr s
        \<and> col_index (map strip (columns df)) ''Total Priority Score'' = Inr p)"
  unfolding load_and_process_data_def read_excel_def drop_unnamed_def assigned_col_def
  by (auto simp: Let_def split: sum.splits if_splits)

lemma load_Inr_Some:
  "load_and_process_data lib (Some f) = Inr x \<Longrightarrow> \<exists>fr. x = Some fr"
  unfolding load_and_process_data_def
  by (auto simp: Let_def split: sum.splits if_splits)

text \<open>
  Claim C8, as the specification states it, fails: a readable sheet that lacks the
  required column \<open>Tool Name\<close> loads without an error.
\<close>

theorem missing_tool_column_loads:
  "spec_ingest_error (Workbook sheet_without_tool)
   \<and> load_and_process_data example_lib (Some (Workbook sheet_without_tool))
       = Inr (Some frame_without_tool)"
  by code_simp

text \<open>
  Claim C8, amended. An upload that is not a readable workbook fails. For a readable
  sheet whose trimmed labels are pairwise distinct, whose label \<open>Name\<close> is written without
  surrounding whitespace, and whose name column holds text, loading fails exactly when one
  of the four labels \<open>Name\<close>, \<open>Quarter Date\<close>, \<open>Status\<close>, \<open>Total Priority Score\<close> is
  absent from the trimmed header, and returns a frame otherwise; the labels
  \<open>Requesting Stakeholder\<close> and \<open>Tool Name\<close> are not needed for loading. A failure is
  an error value and carries no frame.
\<close>

theorem load_fails_iff_needed_column_absent:
  assumes "distinct (map strip (columns df))"
    and "\<forall>l \<in> set (columns df). strip l = ''Name'' \<longrightarrow> l = ''Name''"
    and "''Name'' \<in> set (columns df) \<longrightarrow> str_accessor (first_index (columns df) ''Name'') (data df)"
  shows "load_and_process_data lib (Some NotASpreadsheet) = Inl Unreadable
    \<and> ((\<exists>e. load_and_process_data lib (Some (Workbook df)) = Inl e) \<longleftrightarrow>
         \<not> set [''Name'', ''Quarter Date'', ''Status'', ''Total Priority Score'']
              \<subseteq> set (map strip (columns df)))
    \<and> ((\<exists>fr. load_and_process_data lib (Some (Workbook df)) = Inr (Some fr)) \<longleftrightarrow>
         set [''Name'', ''Quarter Date'', ''Status'', ''Total Priority Score'']
              \<subseteq> set (map strip (columns df)))"
proof -
  let ?cols = "columns df" and ?t = "map strip (columns df)"
  have dc: "distinct ?cols" using assms(1) by (simp add: distinct_map)
  have name: "''Name'' \<in> set ?t \<longleftrightarrow> ''Name'' \<in> set ?cols"
  proof
    assume "''Name'' \<in> set ?t"
    then obtain l where "l \<in> set ?cols" "strip l = ''Name''" by auto
    with assms(2) show "''Name'' \<in> set ?cols" by auto
  next
    assume "''Name'' \<in> set ?cols"
    then have "strip ''Name'' \<in> set ?t" by simp
    then show "''Name'' \<in> set ?t" by (simp only: strip_Name)
  qed
  have ok: "(\<exists>fr. load_and_process_data lib (Some (Workbook df)) = Inr (Some fr)) \<longleftrightarrow>
         set [''Name'', ''Quarter Date'', ''Status'', ''Total Priority Score''] \<subseteq> set ?t"
  proof
    assume "\<exists>fr. load_and_process_data lib (Some (Workbook df)) = Inr (Some fr)"
    then obtain n q s p where "col_index ?cols ''Name'' = Inr n"
        "col_index ?t ''Quarter Date'' = Inr q" "col_index ?t ''Status'' = Inr s"
        "col_index ?t ''Total Priority Score'' = Inr p"
      unfolding load_success_iff by blast
    then have "''Name'' \<in> set ?cols" "''Quarter Date'' \<in> set ?t" "''Status'' \<in> set ?t"
        "''Total Priority Score'' \<in> set ?t"
      by (auto dest: col_index_InrD)
    then show "set [''Name'', ''Quarter Date'', ''Status'', ''Total Priority Score''] \<subseteq> set ?t"
      using name by simp
  next
    assume a: "set [''Name'', ''Quarter Date'', ''Status'', ''Total Priority Score''] \<subseteq> set ?t"
    then have n: "''Name'' \<in> set ?cols" using name by simp
    then have lt: "first_index ?cols ''Name'' < length ?cols" by (rule first_index_less)
    have "col_index ?cols ''Name'' = Inr (first_index ?cols ''Name'')"
      using n dc by (simp add: col_index_distinct)
    moreover have "str_accessor (first_index ?cols ''Name'') (map (rect (length ?cols)) (data df))"
      using assms(3) n lt by (simp add: str_accessor_rect)
    moreover have "col_index ?t ''Quarter Date'' = Inr (first_index ?t ''Quarter Date'')"
      "col_index ?t ''Status'' = Inr (first_index ?t ''Status'')"
      "col_index ?t ''Total Priority Score'' = Inr (first_index ?t ''Total Priority Score'')"
      using a assms(1) by (simp_all add: col_index_distinct)
    moreover have "count_list ?t ''Timeline'' \<le> 1" "count_list ?t ''End_Date'' \<le> 1"
      using assms(1) by (simp_all add: count_list_distinct)
    ultimately show "\<exists>fr. load_and_process_data lib (Some (Workbook df)) = Inr (Some fr)"
      unfolding load_success_iff by blast
  qed
  have tot: "(\<exists>e. load_and_process_data lib (Some (Workbook df)) = Inl e) \<longleftrightarrow>
              \<not> (\<exists>fr. load_and_process_data lib (Some (Workbook df)) = Inr (Some fr))"
  proof (cases "load_and_process_data lib (Some (Workbook df))")
    case (Inl e)
    then show ?thesis by simp
  next
    case (Inr x)
    with load_Inr_Some [OF Inr] show ?thesis by auto
  qed
  have "load_and_process_data lib (Some NotASpreadsheet) = Inl Unreadable"
    by (simp add: load_and_process_data_def read_excel_def)
  with ok tot show ?thesis by simp
qed

theorem load_fails_iff_needed_column_absent_witness:
  "distinct (map strip (columns sheet_without_tool))
   \<and> filter (\<lambda>l. strip l = ''Name'') (columns sheet_without_tool) = [''Name'']
   \<and> ''Name'' \<in> set (columns sheet_without_tool)
   \<and> str_accessor (first_index (columns sheet_without_tool) ''Name'') (data sheet_without_tool)
   \<and> set [''Name'', ''Quarter Date'', ''Status'', ''Total Priority Score'']
        \<subseteq> set (map strip (columns sheet_without_tool))
   \<and> (\<exists>fr. load_and_process_data example_lib (Some (Workbook sheet_without_tool)) = Inr (Some fr))
   \<and> \<not> (\<exists>e. load_and_process_data example_lib (Some (Workbook sheet_without_tool)) = Inl e)"
proof -
  have a: "distinct (map strip (columns sheet_without_tool))" by code_simp
  have b: "\<forall>l \<in> set (columns sheet_without_tool). strip l = ''Name'' \<longrightarrow> l = ''Name''" by code_simp
  have c: "''Name'' \<in> set (columns sheet_without_tool) \<longrightarrow>
        str_accessor (first_index (columns sheet_without_tool) ''Name'') (data sheet_without_tool)"
    by code_simp
  have d: "set [''Name'', ''Quarter Date'', ''Status'', ''Total Priority Score'']
        \<subseteq> set (map strip (columns sheet_without_tool))" by code_simp
  have b': "filter (\<lambda>l. strip l = ''Name'') (columns sheet_without_tool) = [''Name'']"
    by code_simp
  have c1: "''Name'' \<in> set (columns sheet_without_tool)" by code_simp
  have c2: "str_accessor (first_index (columns sheet_without_tool) ''Name'') (data sheet_without_tool)"
    by code_simp
  from load_fails_iff_needed_column_absent [OF a b c, of example_lib] d
  have e: "(\<exists>fr. load_and_process_data example_lib (Some (Workbook sheet_without_tool)) = Inr (Some fr))
     \<and> \<not> (\<exists>e. load_and_process_data example_lib (Some (Workbook sheet_without_tool)) = Inl e)"
    by blast
  from a b' c1 c2 d e show ?thesis by (elim conjE, intro conjI)
qed

subsection \<open>Deriving\<close>

text \<open>
  Claim C1, as the specification states it, fails. A readable sheet with the six required
  columns, a named row, and two more columns labelled \<open>Timeline\<close> with and without a
  trailing space passes the clean-up and the selection of \<open>Quarter Date\<close>; the
  derivation then fails when it reads back the column \<open>Timeline\<close> (line 59), which two
  columns carry after the labels are trimmed.
\<close>

theorem duplicate_timeline_label_fails:
  "\<not> spec_ingest_error (Workbook sheet_two_timelines)
   \<and> read_excel (Workbook sheet_two_timelines) = Inr sheet_two_timelines
   \<and> drop_unnamed sheet_two_timelines = Inr sheet_two_timelines
   \<and> col_index (map strip (columns sheet_two_timelines)) ''Quarter Date'' = Inr 2
   \<and> col_index (map strip (columns sheet_two_timelines)) ''Status'' = Inr 4
   \<and> col_index (map strip (columns sheet_two_timelines)) ''Total Priority Score'' = Inr 5
   \<and> load_and_process_data example_lib (Some (Workbook sheet_two_timelines))
       = Inl (NotASeries ''Timeline'')"
  by code_simp

text \<open>
  Claim C1, amended. Once the sheet is read, the rows without a name are dropped, the
  columns the program selects are found, and the trimmed header carries each of the labels
  \<open>Timeline\<close> and \<open>End_Date\<close> at most once, loading returns a frame with one derived
  row for each cleaned row: no step of the derivation fails. A quarter label outside the
  table leaves end and start date undefined; a status cell that is not a key of the color
  table, or is the empty text, gets the color \<open>#D3D3D3\<close>; a priority cell that is
  neither a number nor a text that reads as a number leaves the numeric priority undefined.
\<close>

theorem derive_never_fails:
  assumes "read_excel f = Inr df"
    and "col_index (columns df) ''Name'' = Inr n"
    and "str_accessor n (data df)"
    and "col_index (map strip (columns df)) ''Quarter Date'' = Inr q"
    and "count_list (map strip (columns df)) ''Timeline'' \<le> 1"
    and "count_list (map strip (columns df)) ''End_Date'' \<le> 1"
    and "col_index (map strip (columns df)) ''Status'' = Inr s"
    and "col_index (map strip (columns df)) ''Total Priority Score'' = Inr p"
  shows "load_and_process_data lib (Some f) =
           Inr (Some \<lparr>labels = map strip (columns df),
                      rows = map (derive lib q s p) (map (map fillna) (clean_names n (data df)))\<rparr>)
    \<and> (Timeline (derive lib q s p cs) \<notin> set (map fst quarter_mapping) \<longrightarrow>
         End_Date (derive lib q s p cs) = None \<and> Start_Date (derive lib q s p cs) = None)
    \<and> ((\<forall>t. cell_at cs s = Str t \<longrightarrow> t \<notin> set (map fst status_colors) \<or> t = '''') \<longrightarrow>
         Color (derive lib q s p cs) = ''#D3D3D3'')
    \<and> ((\<forall>t. cell_at cs p = Str t \<longrightarrow> str_num lib t = None) \<and> (\<forall>x. cell_at cs p \<noteq> Num x) \<longrightarrow>
         Priority_Numeric (derive lib q s p cs) = None)"
proof -
  have load: "load_and_process_data lib (Some f) =
           Inr (Some \<lparr>labels = map strip (columns df),
                      rows = map (derive lib q s p) (map (map fillna) (clean_names n (data df)))\<rparr>)"
    using assms by (simp add: load_and_process_data_def drop_unnamed_def assigned_col_def Let_def)
  have dates: "End_Date (derive lib q s p cs) = None \<and> Start_Date (derive lib q s p cs) = None"
    if "Timeline (derive lib q s p cs) \<notin> set (map fst quarter_mapping)"
  proof -
    from that have "map_of quarter_mapping (astype_str lib (cell_at cs q)) = None"
      unfolding derive_fields(2) by (simp add: map_of_eq_None_iff)
    then have "End_Date (derive lib q s p cs) = None"
      unfolding derive_fields(3) by (simp add: to_datetime_def)
    then show ?thesis unfolding derive_fields(4) by simp
  qed
  have color: "Color (derive lib q s p cs) = ''#D3D3D3''"
    if h: "\<forall>t. cell_at cs s = Str t \<longrightarrow> t \<notin> set (map fst status_colors) \<or> t = ''''"
  proof (cases "cell_at cs s")
    case (Str t)
    with h have "t \<notin> set (map fst status_colors) \<or> t = ''''" by simp
    then show ?thesis
    proof
      assume "t \<notin> set (map fst status_colors)"
      then have "map_of status_colors t = None" by (simp add: map_of_eq_None_iff)
      then show ?thesis unfolding derive_fields(5) Str by (simp add: color_of_def)
    next
      assume "t = ''''"
      then show ?thesis unfolding derive_fields(5) Str
        by (simp add: color_of_def status_colors_def)
    qed
  qed (simp_all add: derive_fields(5) color_of_def)
  have prio: "Priority_Numeric (derive lib q s p cs) = None"
    if "(\<forall>t. cell_at cs p = Str t \<longrightarrow> str_num lib t = None) \<and> (\<forall>x. cell_at cs p \<noteq> Num x)"
    using that unfolding derive_fields(6)
    by (cases "cell_at cs p") (simp_all add: to_numeric_def)
  from load dates color prio show ?thesis by blast
qed

theorem derive_never_fails_witness:
  "read_excel (Workbook example_sheet) = Inr example_sheet
   \<and> col_index (columns example_sheet) ''Name'' = Inr 0
   \<and> str_accessor 0 (data example_sheet)
   \<and> col_index (map strip (columns example_sheet)) ''Quarter Date'' = Inr 2
   \<and> count_list (map strip (columns example_sheet)) ''Timeline'' \<le> 1
   \<and> count_list (map strip (columns example_sheet)) ''End_Date'' \<le> 1
   \<and> col_index (map strip (columns example_sheet)) ''Status'' = Inr 4
   \<and> col_index (map strip (columns example_sheet)) ''Total Priority Score'' = Inr 5
   \<and> Timeline (derive example_lib 2 4 5 (cells example_Y)) \<notin> set (map fst quarter_mapping)
   \<and> cell_at (cells example_Y) 4 = Str ''''
   \<and> cell_at (cells example_Y) 5 = Str ''abc''
   \<and> str_num example_lib ''abc'' = None
   \<and> load_and_process_data example_lib (Some (Workbook example_sheet)) =
        Inr (Some \<lparr>labels = map strip (columns example_sheet),
                   rows = map (derive example_lib 2 4 5)
                            (map (map fillna) (clean_names 0 (data example_sheet)))\<rparr>)
   \<and> End_Date (derive example_lib 2 4 5 (cells example_Y)) = None
   \<and> Start_Date (derive example_lib 2 4 5 (cells example_Y)) = None
   \<and> Color (derive example_lib 2 4 5 (cells example_Y)) = ''#D3D3D3''
   \<and> Priority_Numeric (derive example_lib 2 4 5 (cells example_Y)) = None"
proof -
  have a: "read_excel (Workbook example_sheet) = Inr example_sheet" by code_simp
  have b: "col_index (columns example_sheet) ''Name'' = Inr 0" by code_simp
  have c: "str_accessor 0 (data example_sheet)" by code_simp
  have d: "col_index (map strip (columns example_sheet)) ''Quarter Date'' = Inr 2" by code_simp
  have d1: "count_list (map strip (columns example_sheet)) ''Timeline'' \<le> 1" by code_simp
  have d2: "count_list (map strip (columns example_sheet)) ''End_Date'' \<le> 1" by code_simp
  have e: "col_index (map strip (columns example_sheet)) ''Status'' = Inr 4" by code_simp
  have f: "col_index (map strip (columns example_sheet)) ''Total Priority Score'' = Inr 5"
    by code_simp
  have g: "Timeline (derive example_lib 2 4 5 (cells example_Y)) \<notin> set (map fst quarter_mapping)"
    by code_simp
  have h: "cell_at (cells example_Y) 4 = Str ''''" by code_simp
  have i: "cell_at (cells example_Y) 5 = Str ''abc''" by code_simp
  have j: "str_num example_lib ''abc'' = None" by code_simp
  from derive_never_fails [OF a b c d d1 d2 e f, of example_lib "cells example_Y"]
    a b c d d1 d2 e f g h i j
  show ?thesis by simp
qed

section \<open>Properties of filtering\<close>

lemma mask_filter: "map snd (filter fst (zip (map P xs) xs)) = filter P xs"
  by (induction xs) auto

lemma select_map: "select df (map P (rows df)) = df\<lparr>rows := filter P (rows df)\<rparr>"
  by (simp add: select_def mask_filter)

lemma series_Inr:
  "col_index (labels df) c = Inr i \<Longrightarrow> series df c = Inr (map (\<lambda>r. cell_at (cells r) i) (rows df))"
  by (simp add: series_def)

lemma select_cells:
  "select df (map (P \<circ> (\<lambda>r. cell_at (cells r) i)) (rows df))
     = df\<lparr>rows := filter (\<lambda>r. P (cell_at (cells r) i)) (rows df)\<rparr>"
  "select df (map P (map (\<lambda>r. cell_at (cells r) i) (rows df)))
     = df\<lparr>rows := filter (\<lambda>r. P (cell_at (cells r) i)) (rows df)\<rparr>"
  using select_map [of df "\<lambda>r. P (cell_at (cells r) i)"] by (simp_all add: comp_def)

text \<open>The comparison \<open>==\<close> of a cell with a chosen value is equality with a value that is not blank.\<close>

lemma py_eq_iff: "py_eq a b \<longleftrightarrow> a = b \<and> b \<noteq> NaN"
  by (auto simp: py_eq_def)

text \<open>
  Claim C4. On a frame that has the columns \<open>Status\<close> and \<open>Requesting Stakeholder\<close>,
  the filter returns the frame restricted to the rows that satisfy every restriction in
  force, in their order: the quarter label equals the chosen quarter unless the quarter
  widget is at \<open>All\<close>; the status cell is one of the chosen statuses unless that choice
  holds \<open>All\<close> or is empty; the stakeholder cell equals the chosen stakeholder unless the
  stakeholder widget is at \<open>All\<close>. With no restriction in force the frame comes back
  unchanged.
\<close>

theorem filter_is_conjunction:
  assumes "col_index (labels df) ''Status'' = Inr i"
    and "col_index (labels df) ''Requesting Stakeholder'' = Inr j"
  shows "filtered_df df tb sts sh =
           Inr (df\<lparr>rows := filter (\<lambda>r.
                  (tb \<noteq> ''All'' \<longrightarrow> Timeline r = tb)
                \<and> (Str ''All'' \<notin> set sts \<and> sts \<noteq> [] \<longrightarrow> cell_at (cells r) i \<in> set sts)
                \<and> (sh \<noteq> Str ''All'' \<longrightarrow> cell_at (cells r) j = sh \<and> sh \<noteq> NaN)) (rows df)\<rparr>)
    \<and> filtered_df df ''All'' [Str ''All''] (Str ''All'') = Inr df
    \<and> filtered_df df ''All'' [] (Str ''All'') = Inr df"
proof -
  define f1 where "f1 = (if tb \<noteq> ''All'' then select df (map (\<lambda>r. Timeline r = tb) (rows df)) else df)"
  have f1: "f1 = df\<lparr>rows := filter (\<lambda>r. tb \<noteq> ''All'' \<longrightarrow> Timeline r = tb) (rows df)\<rparr>"
    unfolding f1_def by (simp add: select_map)
  have l1: "labels f1 = labels df" unfolding f1 by simp
  define f2 where "f2 = f1\<lparr>rows := filter (\<lambda>r. Str ''All'' \<notin> set sts \<and> sts \<noteq> [] \<longrightarrow> cell_at (cells r) i \<in> set sts) (rows f1)\<rparr>"
  have s2: "(if Str ''All'' \<notin> set sts \<and> sts \<noteq> []
               then (case series f1 ''Status'' of
                       Inl e \<Rightarrow> Inl e
                     | Inr col \<Rightarrow> Inr (select f1 (map (\<lambda>c. c \<in> set sts) col)))
               else Inr f1) = Inr f2"
    using assms(1) unfolding f2_def
    by (simp add: series_Inr l1 select_cells)
  have l2: "labels f2 = labels df" unfolding f2_def by (simp add: l1)
  define f3 where "f3 = f2\<lparr>rows := filter (\<lambda>r. sh \<noteq> Str ''All'' \<longrightarrow> py_eq (cell_at (cells r) j) sh) (rows f2)\<rparr>"
  have s3: "(if sh \<noteq> Str ''All''
             then (case series f2 ''Requesting Stakeholder'' of
                     Inl e \<Rightarrow> Inl e
                   | Inr col \<Rightarrow> Inr (select f2 (map (\<lambda>c. py_eq c sh) col)))
             else Inr f2) = Inr f3"
    using assms(2) unfolding f3_def
    by (simp add: series_Inr l2 select_cells)
  have "filtered_df df tb sts sh = Inr f3"
    unfolding filtered_df_def Let_def f1_def [symmetric] s2 using s3 by simp
  moreover have "f3 = df\<lparr>rows := filter (\<lambda>r.
                  (tb \<noteq> ''All'' \<longrightarrow> Timeline r = tb)
                \<and> (Str ''All'' \<notin> set sts \<and> sts \<noteq> [] \<longrightarrow> cell_at (cells r) i \<in> set sts)
                \<and> (sh \<noteq> Str ''All'' \<longrightarrow> cell_at (cells r) j = sh \<and> sh \<noteq> NaN)) (rows df)\<rparr>"
    unfolding f3_def f2_def f1 py_eq_iff
    by (simp add: conj_commute conj_left_commute cong: filter_cong)
  moreover have "filtered_df df ''All'' [Str ''All''] (Str ''All'') = Inr df"
    by (simp add: filtered_df_def)
  moreover have "filtered_df df ''All'' [] (Str ''All'') = Inr df"
    by (simp add: filtered_df_def)
  ultimately show ?thesis by simp
qed

theorem filter_is_conjunction_witness:
  "col_index (labels frame_filter) ''Status'' = Inr 4
   \<and> col_index (labels frame_filter) ''Requesting Stakeholder'' = Inr 1
   \<and> filtered_df frame_filter ''Q1 2025'' [Str ''In Progress''] (Str ''Ops'')
       = Inr (frame_filter\<lparr>rows := [filter_row ''a'' ''Q1 2025'' ''In Progress'' ''Ops'']\<rparr>)
   \<and> filtered_df frame_filter ''Q1 2025'' [Str ''All''] (Str ''All'')
       = Inr (frame_filter\<lparr>rows := [filter_row ''a'' ''Q1 2025'' ''In Progress'' ''Ops'',
                                      filter_row ''c'' ''Q1 2025'' ''Planning'' ''Ops'',
                                      filter_row ''d'' ''Q1 2025'' ''In Progress'' ''Legal'']\<rparr>)
   \<and> filtered_df frame_filter ''All'' [Str ''In Progress''] (Str ''All'')
       = Inr (frame_filter\<lparr>rows := [filter_row ''a'' ''Q1 2025'' ''In Progress'' ''Ops'',
                                      filter_row ''b'' ''Q2 2025'' ''In Progress'' ''Ops'',
                                      filter_row ''d'' ''Q1 2025'' ''In Progress'' ''Legal'']\<rparr>)
   \<and> filtered_df frame_filter ''All'' [Str ''All''] (Str ''Ops'')
       = Inr (frame_filter\<lparr>rows := [filter_row ''a'' ''Q1 2025'' ''In Progress'' ''Ops'',
                                      filter_row ''b'' ''Q2 2025'' ''In Progress'' ''Ops'',
                                      filter_row ''c'' ''Q1 2025'' ''Planning'' ''Ops'']\<rparr>)
   \<and> filtered_df frame_filter ''All'' [Str ''In Progress'', Str ''Planning''] (Str ''All'')
       = Inr (frame_filter\<lparr>rows := [filter_row ''a'' ''Q1 2025'' ''In Progress'' ''Ops'',
                                      filter_row ''b'' ''Q2 2025'' ''In Progress'' ''Ops'',
                                      filter_row ''c'' ''Q1 2025'' ''Planning'' ''Ops'',
                                      filter_row ''d'' ''Q1 2025'' ''In Progress'' ''Legal'']\<rparr>)
   \<and> filtered_df frame_filter ''All'' [Str ''All''] (Str ''All'') = Inr frame_filter
   \<and> filtered_df frame_filter ''All'' [] (Str ''All'') = Inr frame_filter"
proof -
  have a: "col_index (labels frame_filter) ''Status'' = Inr 4" by code_simp
  have b: "col_index (labels frame_filter) ''Requesting Stakeholder'' = Inr 1" by code_simp
  have rs: "rows frame_filter =
              [filter_row ''a'' ''Q1 2025'' ''In Progress'' ''Ops'',
               filter_row ''b'' ''Q2 2025'' ''In Progress'' ''Ops'',
               filter_row ''c'' ''Q1 2025'' ''Planning'' ''Ops'',
               filter_row ''d'' ''Q1 2025'' ''In Progress'' ''Legal'',
               filter_row ''e'' ''Q3 2025'' ''On Hold'' ''Finance'']"
    by (simp add: frame_filter_def)
  have fr: "Timeline (filter_row nm q st sh) = q"
    "cell_at (cells (filter_row nm q st sh)) 4 = Str st"
    "cell_at (cells (filter_row nm q st sh)) 1 = Str sh"
    "cell_at (cells (filter_row nm q st sh)) (Suc 0) = Str sh" for nm q st sh
    by (simp_all add: filter_row_def cell_at_def)
  note t = filter_is_conjunction [OF a b]
  have c: "filtered_df frame_filter ''Q1 2025'' [Str ''In Progress''] (Str ''Ops'')
       = Inr (frame_filter\<lparr>rows := [filter_row ''a'' ''Q1 2025'' ''In Progress'' ''Ops'']\<rparr>)"
    using t [of "''Q1 2025''" "[Str ''In Progress'']" "Str ''Ops''"] by (simp add: rs fr)
  have d: "filtered_df frame_filter ''Q1 2025'' [Str ''All''] (Str ''All'')
       = Inr (frame_filter\<lparr>rows := [filter_row ''a'' ''Q1 2025'' ''In Progress'' ''Ops'',
                                      filter_row ''c'' ''Q1 2025'' ''Planning'' ''Ops'',
                                      filter_row ''d'' ''Q1 2025'' ''In Progress'' ''Legal'']\<rparr>)"
    using t [of "''Q1 2025''" "[Str ''All'']" "Str ''All''"] by (simp add: rs fr)
  have e: "filtered_df frame_filter ''All'' [Str ''In Progress''] (Str ''All'')
       = Inr (frame_filter\<lparr>rows := [filter_row ''a'' ''Q1 2025'' ''In Progress'' ''Ops'',
                                      filter_row ''b'' ''Q2 2025'' ''In Progress'' ''Ops'',
                                      filter_row ''d'' ''Q1 2025'' ''In Progress'' ''Legal'']\<rparr>)"
    using t [of "''All''" "[Str ''In Progress'']" "Str ''All''"] by (simp add: rs fr)
  have f: "filtered_df frame_filter ''All'' [Str ''All''] (Str ''Ops'')
       = Inr (frame_filter\<lparr>rows := [filter_row ''a'' ''Q1 2025'' ''In Progress'' ''Ops'',
                                      filter_row ''b'' ''Q2 2025'' ''In Progress'' ''Ops'',
                                      filter_row ''c'' ''Q1 2025'' ''Planning'' ''Ops'']\<rparr>)"
    using t [of "''All''" "[Str ''All'']" "Str ''Ops''"] by (simp add: rs fr)
  have g: "filtered_df frame_filter ''All'' [Str ''In Progress'', Str ''Planning''] (Str ''All'')
       = Inr (frame_filter\<lparr>rows := [filter_row ''a'' ''Q1 2025'' ''In Progress'' ''Ops'',
                                      filter_row ''b'' ''Q2 2025'' ''In Progress'' ''Ops'',
                                      filter_row ''c'' ''Q1 2025'' ''Planning'' ''Ops'',
                                      filter_row ''d'' ''Q1 2025'' ''In Progress'' ''Legal'']\<rparr>)"
    using t [of "''All''" "[Str ''In Progress'', Str ''Planning'']" "Str ''All''"]
    by (simp add: rs fr)
  have h: "filtered_df frame_filter ''All'' [Str ''All''] (Str ''All'') = Inr frame_filter
    \<and> filtered_df frame_filter ''All'' [] (Str ''All'') = Inr frame_filter"
    using t [of "''All''" "[]" "Str ''All''"] by (elim conjE, intro conjI)
  from a b c d e f g h show ?thesis by (elim conjE, intro conjI)
qed

text \<open>
  Claim C10. An empty choice of statuses restricts nothing: the filter gives the same
  result as with the choice \<open>All\<close>, namely the rows that pass the quarter and the
  stakeholder restriction, whatever their status.
\<close>

theorem empty_status_selection_unrestricted:
  "filtered_df df tb [] sh = filtered_df df tb [Str ''All''] sh
   \<and> (col_index (labels df) ''Requesting Stakeholder'' = Inr j \<longrightarrow>
        filtered_df df tb [] sh =
          Inr (df\<lparr>rows := filter (\<lambda>r.
                 (tb \<noteq> ''All'' \<longrightarrow> Timeline r = tb)
               \<and> (sh \<noteq> Str ''All'' \<longrightarrow> py_eq (cell_at (cells r) j) sh)) (rows df)\<rparr>))"
proof -
  have a: "filtered_df df tb [] sh = filtered_df df tb [Str ''All''] sh"
    by (simp add: filtered_df_def)
  have b: "filtered_df df tb [] sh =
          Inr (df\<lparr>rows := filter (\<lambda>r.
                 (tb \<noteq> ''All'' \<longrightarrow> Timeline r = tb)
               \<and> (sh \<noteq> Str ''All'' \<longrightarrow> py_eq (cell_at (cells r) j) sh)) (rows df)\<rparr>)"
    if h: "col_index (labels df) ''Requesting Stakeholder'' = Inr j"
  proof -
    define f1 where "f1 = (if tb \<noteq> ''All'' then select df (map (\<lambda>r. Timeline r = tb) (rows df)) else df)"
    have f1: "f1 = df\<lparr>rows := filter (\<lambda>r. tb \<noteq> ''All'' \<longrightarrow> Timeline r = tb) (rows df)\<rparr>"
      unfolding f1_def by (simp add: select_map)
    have l1: "labels f1 = labels df" unfolding f1 by simp
    have "filtered_df df tb [] sh =
            (if sh \<noteq> Str ''All''
             then Inr (select f1 (map (\<lambda>c. py_eq c sh) (map (\<lambda>r. cell_at (cells r) j) (rows f1))))
             else Inr f1)"
      unfolding filtered_df_def Let_def f1_def [symmetric] using h by (simp add: series_Inr l1)
    also have "\<dots> = Inr (f1\<lparr>rows := filter (\<lambda>r. sh \<noteq> Str ''All'' \<longrightarrow> py_eq (cell_at (cells r) j) sh) (rows f1)\<rparr>)"
      by (simp add: select_cells)
    also have "\<dots> = Inr (df\<lparr>rows := filter (\<lambda>r.
                 (tb \<noteq> ''All'' \<longrightarrow> Timeline r = tb)
               \<and> (sh \<noteq> Str ''All'' \<longrightarrow> py_eq (cell_at (cells r) j) sh)) (rows df)\<rparr>)"
      unfolding f1 by (simp add: conj_commute cong: filter_cong)
    finally show ?thesis .
  qed
  from a b show ?thesis by blast
qed

theorem empty_status_selection_unrestricted_witness:
  "col_index (labels example_frame) ''Requesting Stakeholder'' = Inr 1
   \<and> filtered_df example_frame ''All'' [] (Str ''All'') = Inr example_frame
   \<and> filtered_df example_frame ''All'' [] (Str ''All'')
       = filtered_df example_frame ''All'' [Str ''All''] (Str ''All'')"
proof -
  have b: "col_index (labels example_frame) ''Requesting Stakeholder'' = Inr 1" by code_simp
  have c: "filtered_df example_frame ''All'' [] (Str ''All'') = Inr example_frame" by code_simp
  from empty_status_selection_unrestricted [of example_frame "''All''" "Str ''All''" 1]
  have "filtered_df example_frame ''All'' [] (Str ''All'')
       = filtered_df example_frame ''All'' [Str ''All''] (Str ''All'')"
    by (elim conjE)
  with b c show ?thesis by (intro conjI)
qed

section \<open>Properties of the counts and the chart rows\<close>

lemma set_unique: "set (unique xs) = set xs"
  by (induction xs) auto

lemma distinct_unique: "distinct (unique xs)"
  by (induction xs) auto

lemma first_index_unique_sorted:
  "sorted_wrt (\<lambda>a b. first_index xs a < first_index xs b) (unique xs)"
proof (induction xs)
  case Nil
  show ?case by simp
next
  case (Cons x xs)
  have "sorted_wrt (\<lambda>a b. first_index xs a < first_index xs b) (filter (\<lambda>y. y \<noteq> x) (unique xs))"
    using Cons.IH by (rule sorted_wrt_filter)
  then have "sorted_wrt (\<lambda>a b. first_index (x # xs) a < first_index (x # xs) b)
               (filter (\<lambda>y. y \<noteq> x) (unique xs))"
    by (rule sorted_wrt_mono_rel [rotated]) auto
  then show ?case by auto
qed

lemma sorted_wrt_insort_key_stable:
  fixes f :: "'a \<Rightarrow> int"
  assumes "sorted_wrt (\<lambda>a b. f a < f b \<or> (f a = f b \<and> R a b)) ys"
    and "\<forall>y \<in> set ys. R x y"
  shows "sorted_wrt (\<lambda>a b. f a < f b \<or> (f a = f b \<and> R a b)) (insort_key f x ys)"
  using assms
proof (induction ys)
  case Nil
  show ?case by simp
next
  case (Cons y ys)
  show ?case
  proof (cases "f x \<le> f y")
    case True
    have "f x < f z \<or> (f x = f z \<and> R x z)" if "z \<in> set (y # ys)" for z
    proof -
      have "f y \<le> f z" using Cons.prems(1) that by auto
      moreover have "R x z" using Cons.prems(2) that by auto
      ultimately show ?thesis using True by auto
    qed
    with Cons.prems(1) True show ?thesis by simp
  next
    case False
    have "sorted_wrt (\<lambda>a b. f a < f b \<or> (f a = f b \<and> R a b)) (insort_key f x ys)"
      using Cons by simp
    moreover have "f y < f w \<or> (f y = f w \<and> R y w)" if "w \<in> set (insort_key f x ys)" for w
      using that Cons.prems(1) False by (auto simp: set_insort_key)
    ultimately show ?thesis using False by simp
  qed
qed

lemma sorted_wrt_sort_key_stable:
  fixes f :: "'a \<Rightarrow> int"
  assumes "sorted_wrt R xs"
  shows "sorted_wrt (\<lambda>a b. f a < f b \<or> (f a = f b \<and> R a b)) (sort_key f xs)"
  using assms
proof (induction xs)
  case Nil
  show ?case by simp
next
  case (Cons x xs)
  then have "sorted_wrt (\<lambda>a b. f a < f b \<or> (f a = f b \<and> R a b)) (sort_key f xs)" by simp
  moreover have "\<forall>y \<in> set (sort_key f xs). R x y" using Cons.prems by simp
  ultimately show ?case by (simp add: sorted_wrt_insort_key_stable)
qed

lemma set_value_counts: "set (value_counts xs) = (\<lambda>v. (v, count_list xs v)) ` set xs"
  by (simp add: value_counts_def set_unique)

lemma distinct_map_sort_key: "distinct (map g (sort_key f xs)) = distinct (map g xs)"
  by (simp add: distinct_map)

lemma distinct_fst_value_counts: "distinct (map fst (value_counts xs))"
  by (simp add: value_counts_def distinct_map_sort_key comp_def distinct_unique)

lemma set_fst_value_counts: "set (map fst (value_counts xs)) = set xs"
  by (force simp: set_value_counts)

lemma value_counts_order:
  "sorted_wrt (\<lambda>a b. count_list xs b < count_list xs a
                 \<or> (count_list xs a = count_list xs b \<and> first_index xs a < first_index xs b))
     (map fst (value_counts xs))"
proof -
  let ?ps = "map (\<lambda>v. (v, count_list xs v)) (unique xs)"
  let ?R = "\<lambda>a b. first_index xs (fst a) < first_index xs (fst b)"
  let ?f = "\<lambda>p :: 'a \<times> nat. - int (snd p)"
  have "sorted_wrt ?R ?ps"
    using first_index_unique_sorted [of xs] by (simp add: sorted_wrt_map)
  then have "sorted_wrt (\<lambda>a b. ?f a < ?f b \<or> (?f a = ?f b \<and> ?R a b)) (sort_key ?f ?ps)"
    by (rule sorted_wrt_sort_key_stable)
  then have s: "sorted_wrt (\<lambda>a b. ?f a < ?f b \<or> (?f a = ?f b \<and> ?R a b)) (value_counts xs)"
    by (simp add: value_counts_def)
  have "sorted_wrt (\<lambda>a b. count_list xs (fst b) < count_list xs (fst a)
                 \<or> (count_list xs (fst a) = count_list xs (fst b) \<and> ?R a b)) (value_counts xs)"
    using s
  proof (rule sorted_wrt_mono_rel [rotated])
    fix a b assume "a \<in> set (value_counts xs)" "b \<in> set (value_counts xs)"
      and "?f a < ?f b \<or> (?f a = ?f b \<and> ?R a b)"
    then show "count_list xs (fst b) < count_list xs (fst a)
                 \<or> (count_list xs (fst a) = count_list xs (fst b) \<and> ?R a b)"
      by (auto simp: set_value_counts)
  qed
  then show ?thesis by (simp add: sorted_wrt_map)
qed

text \<open>
  Claim C5, as the specification states it, fails: with one request in \<open>Q4 2025\<close> and one
  in \<open>Q1 2026\<close>, the quarterly distribution lists \<open>Q1 2026\<close> first, before the earlier
  quarter.
\<close>

theorem quarter_dist_not_chronological:
  "load_and_process_data example_lib (Some (Workbook sheet_two_years)) = Inr (Some frame_two_years)
   \<and> quarter_dist frame_two_years = [(''Q1 2026'', 1), (''Q4 2025'', 1)]
   \<and> \<not> chronological (map fst (quarter_dist frame_two_years))"
  by code_simp

text \<open>
  Claim C5, amended. The quarterly distribution lists each quarter label of the filtered
  rows once, with the number of rows that carry it, in ascending order of the labels as
  strings (character by character).
\<close>

theorem quarter_dist_sorted_by_label:
  "sorted (map fst (quarter_dist df))
   \<and> distinct (map fst (quarter_dist df))
   \<and> set (quarter_dist df) =
       (\<lambda>l. (l, count_list (map Timeline (rows df)) l)) ` set (map Timeline (rows df))"
proof -
  have "sorted (map fst (quarter_dist df))"
    unfolding quarter_dist_def by (rule sorted_sort_key)
  moreover have "distinct (map fst (quarter_dist df))"
    unfolding quarter_dist_def by (simp only: distinct_map_sort_key distinct_fst_value_counts)
  moreover have "set (quarter_dist df) =
       (\<lambda>l. (l, count_list (map Timeline (rows df)) l)) ` set (map Timeline (rows df))"
    unfolding quarter_dist_def by (simp only: set_sort set_value_counts)
  ultimately show ?thesis by (intro conjI)
qed

text \<open>
  Claim C9. On a frame that has the column \<open>Tool Name\<close>, the top tools are the first
  five entries of a ranking of the distinct tool names that are neither empty nor blank:
  each name comes with the number of rows that carry it, a name of higher count precedes a
  name of lower count, and of two names of equal count the one met first in the filtered
  rows precedes. There are fewer than five entries when there are fewer such names.
\<close>

theorem top_tools:
  fixes df :: frame and i :: nat
  defines "tools \<equiv> filter (\<lambda>c. c \<noteq> NaN) (filter (\<lambda>c. c \<noteq> Str '''') (map (\<lambda>r. cell_at (cells r) i) (rows df)))"
  assumes "col_index (labels df) ''Tool Name'' = Inr i"
  shows "\<exists>ranked. tool_counts df = Inr (take 5 ranked)
      \<and> length (take 5 ranked) = min 5 (card (set tools))
      \<and> distinct (map fst ranked)
      \<and> set (map fst ranked) = set tools
      \<and> (\<forall>(t, c) \<in> set ranked. c = count_list tools t)
      \<and> sorted_wrt (\<lambda>a b. count_list tools b < count_list tools a
                     \<or> (count_list tools a = count_list tools b
                         \<and> first_index tools a < first_index tools b))
          (map fst ranked)"
proof (intro exI conjI)
  show "tool_counts df = Inr (take 5 (value_counts tools))"
    using assms(2) by (simp add: tool_counts_def series_def notna_def tools_def)
  show "distinct (map fst (value_counts tools))" by (rule distinct_fst_value_counts)
  show "set (map fst (value_counts tools)) = set tools" by (rule set_fst_value_counts)
  show "\<forall>(t, c) \<in> set (value_counts tools). c = count_list tools t"
    by (auto simp: set_value_counts)
  show "sorted_wrt (\<lambda>a b. count_list tools b < count_list tools a
                     \<or> (count_list tools a = count_list tools b
                         \<and> first_index tools a < first_index tools b))
          (map fst (value_counts tools))"
    by (rule value_counts_order)
  have "length (value_counts tools) = length (map fst (value_counts tools))" by simp
  also have "\<dots> = card (set (map fst (value_counts tools)))"
    using distinct_fst_value_counts [of tools] by (simp only: distinct_card)
  also have "\<dots> = card (set tools)" by (simp only: set_fst_value_counts)
  finally show "length (take 5 (value_counts tools)) = min 5 (card (set tools))"
    by (simp add: min.commute)
qed

theorem top_tools_witness:
  "col_index (labels frame_tools) ''Tool Name'' = Inr 3
   \<and> tool_counts frame_tools =
       Inr [(Str ''C'', 3), (Str ''A'', 2), (Str ''B'', 1), (Str ''D'', 1), (Str ''E'', 1)]
   \<and> (\<exists>ranked. tool_counts frame_tools = Inr (take 5 ranked) \<and> distinct (map fst ranked))"
proof -
  have a: "col_index (labels frame_tools) ''Tool Name'' = Inr 3" by code_simp
  have b: "tool_counts frame_tools =
       Inr [(Str ''C'', 3), (Str ''A'', 2), (Str ''B'', 1), (Str ''D'', 1), (Str ''E'', 1)]"
    by code_simp
  from top_tools [OF a]
  have c: "\<exists>ranked. tool_counts frame_tools = Inr (take 5 ranked) \<and> distinct (map fst ranked)"
    by blast
  from a b c show ?thesis by (intro conjI)
qed

lemma item_Inr: "col_index ls c = Inr i \<Longrightarrow> item ls r c = Inr (cell_at (cells r) i)"
  by (simp add: item_def)

lemma gantt_entry_text:
  assumes "col_index ls ''Name'' = Inr n"
    and "col_index ls ''Requesting Stakeholder'' = Inr h"
    and "col_index ls ''Status'' = Inr s"
    and "col_index ls ''Tool Name'' = Inr t"
    and "cell_at (cells r) n = Str name"
  shows "gantt_entry ls r b e =
           Inr \<lparr>Task = take 50 name @ (if 50 < length name then ''...'' else ''''),
                Start = b, Finish = e,
                Resource = cell_at (cells r) h,
                Status = cell_at (cells r) s,
                Tool = cell_at (cells r) t,
                Quarter = Timeline r,
                Full_Name = Str name\<rparr>"
  using assms by (simp add: gantt_entry_def item_Inr)

lemma gantt_rows_step:
  assumes "count_list ls ''Start_Date'' \<le> 1" and "count_list ls ''End_Date'' \<le> 1"
  shows "gantt_rows ls (r # rs) =
           (case (Start_Date r, End_Date r) of
              (Some s, Some e) \<Rightarrow>
                (case gantt_entry ls r s e of
                   Inl err \<Rightarrow> Inl err
                 | Inr g \<Rightarrow>
                     (case gantt_rows ls rs of
                        Inl err \<Rightarrow> Inl err
                      | Inr gs \<Rightarrow> Inr (g # gs)))
            | _ \<Rightarrow> gantt_rows ls rs)"
  using assms by (simp add: assigned_col_def split: option.splits)

lemma gantt_rows_dated:
  assumes n: "col_index ls ''Name'' = Inr n"
    and h: "col_index ls ''Requesting Stakeholder'' = Inr h"
    and s: "col_index ls ''Status'' = Inr s"
    and t: "col_index ls ''Tool Name'' = Inr t"
    and once: "count_list ls ''Start_Date'' \<le> 1" "count_list ls ''End_Date'' \<le> 1"
    and text_names: "\<forall>r \<in> set rs. Start_Date r \<noteq> None \<and> End_Date r \<noteq> None \<longrightarrow> is_Str (cell_at (cells r) n)"
  shows "\<exists>gs. gantt_rows ls rs = Inr gs
     \<and> list_all2 (\<lambda>r g. \<exists>name b e. cell_at (cells r) n = Str name
            \<and> Start_Date r = Some b \<and> End_Date r = Some e
            \<and> g = \<lparr>Task = take 50 name @ (if 50 < length name then ''...'' else ''''),
                    Start = b, Finish = e,
                    Resource = cell_at (cells r) h,
                    Status = cell_at (cells r) s,
                    Tool = cell_at (cells r) t,
                    Quarter = Timeline r,
                    Full_Name = Str name\<rparr>)
         (filter (\<lambda>r. Start_Date r \<noteq> None \<and> End_Date r \<noteq> None) rs) gs"
proof -
  define Rel :: "drow \<Rightarrow> gantt \<Rightarrow> bool" where "Rel = (\<lambda>r g. \<exists>name b e. cell_at (cells r) n = Str name
            \<and> Start_Date r = Some b \<and> End_Date r = Some e
            \<and> g = \<lparr>Task = take 50 name @ (if 50 < length name then ''...'' else ''''),
                    Start = b, Finish = e,
                    Resource = cell_at (cells r) h,
                    Status = cell_at (cells r) s,
                    Tool = cell_at (cells r) t,
                    Quarter = Timeline r,
                    Full_Name = Str name\<rparr>)"
  define P :: "drow \<Rightarrow> bool" where "P = (\<lambda>r. Start_Date r \<noteq> None \<and> End_Date r \<noteq> None)"
  note step = gantt_rows_step [OF once]
  have "\<exists>gs. gantt_rows ls rs = Inr gs \<and> list_all2 Rel (filter P rs) gs"
    if "\<forall>r \<in> set rs. P r \<longrightarrow> is_Str (cell_at (cells r) n)"
    using that
  proof (induction rs)
    case Nil
    show ?case by simp
  next
    case (Cons r rs)
    then obtain gs where gs: "gantt_rows ls rs = Inr gs" and rel: "list_all2 Rel (filter P rs) gs"
      by auto
    show ?case
    proof (cases "P r")
      case True
      then obtain b e where be: "Start_Date r = Some b" "End_Date r = Some e"
        unfolding P_def by auto
      from True Cons.prems have "is_Str (cell_at (cells r) n)" by simp
      then obtain name where nm: "cell_at (cells r) n = Str name"
        by (auto simp: is_Str_def split: cell.splits)
      define g where "g = \<lparr>Task = take 50 name @ (if 50 < length name then ''...'' else ''''),
                    Start = b, Finish = e,
                    Resource = cell_at (cells r) h,
                    Status = cell_at (cells r) s,
                    Tool = cell_at (cells r) t,
                    Quarter = Timeline r,
                    Full_Name = Str name\<rparr>"
      have "gantt_entry ls r b e = Inr g"
        unfolding g_def by (rule gantt_entry_text [OF n h s t nm])
      then have 1: "gantt_rows ls (r # rs) = Inr (g # gs)"
        unfolding step by (simp add: be gs)
      have "Rel r g" unfolding Rel_def g_def using nm be by blast
      with rel True have "list_all2 Rel (filter P (r # rs)) (g # gs)" by simp
      with 1 show ?thesis by blast
    next
      case False
      then have "gantt_rows ls (r # rs) = gantt_rows ls rs"
        unfolding P_def step by (cases "Start_Date r"; cases "End_Date r") simp_all
      moreover from False have "filter P (r # rs) = filter P rs" by simp
      ultimately show ?thesis using gs rel by simp
    qed
  qed
  with text_names show ?thesis unfolding Rel_def P_def by blast
qed

lemma count_list_map_filter: "count_list (map f xs) v = length (filter (\<lambda>x. f x = v) xs)"
  by (induction xs) auto

lemma count_list_filter: "P v \<Longrightarrow> count_list (filter P xs) v = count_list xs v"
  by (induction xs) auto

lemma value_counts_member:
  assumes "r \<in> set rs" and "f r \<noteq> NaN"
  shows "(f r, length (filter (\<lambda>r'. f r' = f r) rs)) \<in> set (value_counts (notna (map f rs)))"
proof -
  have "f r \<in> set (notna (map f rs))" using assms by (simp add: notna_def)
  then have "(f r, count_list (notna (map f rs)) (f r)) \<in> set (value_counts (notna (map f rs)))"
    unfolding set_value_counts by (rule imageI)
  moreover have "count_list (notna (map f rs)) (f r) = length (filter (\<lambda>r'. f r' = f r) rs)"
    unfolding notna_def using assms(2) by (simp add: count_list_filter count_list_map_filter)
  ultimately show ?thesis by simp
qed

lemma quarter_dist_member:
  assumes "r \<in> set (rows df)"
  shows "(Timeline r, length (filter (\<lambda>r'. Timeline r' = Timeline r) (rows df))) \<in> set (quarter_dist df)"
proof -
  have "Timeline r \<in> set (map Timeline (rows df))" using assms by simp
  then have "(Timeline r, count_list (map Timeline (rows df)) (Timeline r))
               \<in> set (value_counts (map Timeline (rows df)))"
    unfolding set_value_counts by (rule imageI)
  then show ?thesis by (simp add: quarter_dist_def count_list_map_filter)
qed

text \<open>
  Claim C6, as the specification states it, fails. A sheet without the column
  \<open>Tool Name\<close> loads, and its row has both dates, yet the loop over the rows raises when
  it reads the tool of that row (line 155), so the row gets no chart record. Likewise a
  row whose name is a number has both dates, and the loop raises when it slices the name
  (line 150).
\<close>

theorem dated_row_without_chart_record:
  "load_and_process_data example_lib (Some (Workbook sheet_without_tool))
     = Inr (Some frame_without_tool)
   \<and> map Start_Date (rows frame_without_tool) = [Some \<lparr>year = 2024, month = 12, day = 31\<rparr>]
   \<and> map End_Date (rows frame_without_tool) = [Some \<lparr>year = 2025, month = 3, day = 31\<rparr>]
   \<and> gantt_data frame_without_tool = Inl (KeyError ''Tool Name'')
   \<and> load_and_process_data example_lib (Some (Workbook sheet_number_name))
       = Inr (Some frame_number_name)
   \<and> map Start_Date (rows frame_number_name) = [Some \<lparr>year = 2024, month = 12, day = 31\<rparr>]
   \<and> map End_Date (rows frame_number_name) = [Some \<lparr>year = 2025, month = 3, day = 31\<rparr>]
   \<and> gantt_data frame_number_name = Inl TypeError"
  by code_simp

text \<open>
  Claim C6, amended. On a frame whose labels are pairwise distinct, that has the four
  columns the chart reads (\<open>Name\<close>, \<open>Requesting Stakeholder\<close>, \<open>Status\<close>,
  \<open>Tool Name\<close>), and in which every row with both dates has a text name, the chart rows
  are, in the order of the filtered rows, one record for each row that has both a start
  and an end date: its label is the first 50 characters of the name, followed by \<open>...\<close>
  when the name is longer than 50 characters. A row without dates gives no chart row, yet
  the total counts every row, and the counts by status, by stakeholder and by quarter
  count every row that carries the value.
\<close>

theorem chart_rows_and_counts:
  assumes n: "col_index (labels df) ''Name'' = Inr n"
    and h: "col_index (labels df) ''Requesting Stakeholder'' = Inr h"
    and s: "col_index (labels df) ''Status'' = Inr s"
    and t: "col_index (labels df) ''Tool Name'' = Inr t"
    and dist: "distinct (labels df)"
    and text_names: "\<forall>r \<in> set (rows df). Start_Date r \<noteq> None \<and> End_Date r \<noteq> None
                \<longrightarrow> is_Str (cell_at (cells r) n)"
  shows "\<exists>gs sc hc. gantt_data df = Inr gs
     \<and> list_all2 (\<lambda>r g. \<exists>name b e. cell_at (cells r) n = Str name
            \<and> Start_Date r = Some b \<and> End_Date r = Some e
            \<and> g = \<lparr>Task = take 50 name @ (if 50 < length name then ''...'' else ''''),
                    Start = b, Finish = e,
                    Resource = cell_at (cells r) h,
                    Status = cell_at (cells r) s,
                    Tool = cell_at (cells r) t,
                    Quarter = Timeline r,
                    Full_Name = Str name\<rparr>)
         (filter (\<lambda>r. Start_Date r \<noteq> None \<and> End_Date r \<noteq> None) (rows df)) gs
     \<and> total_items df = length (rows df)
     \<and> status_counts df = Inr sc
     \<and> stakeholder_counts df = Inr hc
     \<and> (\<forall>r \<in> set (rows df).
          (cell_at (cells r) s \<noteq> NaN \<longrightarrow>
             (cell_at (cells r) s,
              length (filter (\<lambda>r'. cell_at (cells r') s = cell_at (cells r) s) (rows df))) \<in> set sc)
        \<and> (cell_at (cells r) h \<noteq> NaN \<longrightarrow>
             (cell_at (cells r) h,
              length (filter (\<lambda>r'. cell_at (cells r') h = cell_at (cells r) h) (rows df))) \<in> set hc)
        \<and> (Timeline r, length (filter (\<lambda>r'. Timeline r' = Timeline r) (rows df)))
             \<in> set (quarter_dist df))"
proof -
  from dist have once: "count_list (labels df) ''Start_Date'' \<le> 1"
      "count_list (labels df) ''End_Date'' \<le> 1"
    by (simp_all add: count_list_distinct)
  from gantt_rows_dated [OF n h s t once text_names] obtain gs where
    g: "gantt_data df = Inr gs"
    and rel: "list_all2 (\<lambda>r g. \<exists>name b e. cell_at (cells r) n = Str name
            \<and> Start_Date r = Some b \<and> End_Date r = Some e
            \<and> g = \<lparr>Task = take 50 name @ (if 50 < length name then ''...'' else ''''),
                    Start = b, Finish = e,
                    Resource = cell_at (cells r) h,
                    Status = cell_at (cells r) s,
                    Tool = cell_at (cells r) t,
                    Quarter = Timeline r,
                    Full_Name = Str name\<rparr>)
         (filter (\<lambda>r. Start_Date r \<noteq> None \<and> End_Date r \<noteq> None) (rows df)) gs"
    unfolding gantt_data_def by blast
  let ?sc = "value_counts (notna (map (\<lambda>r. cell_at (cells r) s) (rows df)))"
  let ?hc = "value_counts (notna (map (\<lambda>r. cell_at (cells r) h) (rows df)))"
  have sc: "status_counts df = Inr ?sc" using s by (simp add: status_counts_def series_def)
  have hc: "stakeholder_counts df = Inr ?hc" using h by (simp add: stakeholder_counts_def series_def)
  have tot: "total_items df = length (rows df)" by (simp add: total_items_def)
  have cnt: "\<forall>r \<in> set (rows df).
          (cell_at (cells r) s \<noteq> NaN \<longrightarrow>
             (cell_at (cells r) s,
              length (filter (\<lambda>r'. cell_at (cells r') s = cell_at (cells r) s) (rows df))) \<in> set ?sc)
        \<and> (cell_at (cells r) h \<noteq> NaN \<longrightarrow>
             (cell_at (cells r) h,
              length (filter (\<lambda>r'. cell_at (cells r') h = cell_at (cells r) h) (rows df))) \<in> set ?hc)
        \<and> (Timeline r, length (filter (\<lambda>r'. Timeline r' = Timeline r) (rows df)))
             \<in> set (quarter_dist df)"
    by (intro ballI conjI impI value_counts_member quarter_dist_member)
  from g rel tot sc hc cnt show ?thesis by blast
qed

theorem chart_rows_and_counts_witness:
  "col_index (labels example_frame) ''Name'' = Inr 0
   \<and> col_index (labels example_frame) ''Requesting Stakeholder'' = Inr 1
   \<and> col_index (labels example_frame) ''Status'' = Inr 4
   \<and> col_index (labels example_frame) ''Tool Name'' = Inr 3
   \<and> distinct (labels example_frame)
   \<and> is_Str (cell_at (cells example_X) 0)
   \<and> rows example_frame = [example_X, example_Y]
   \<and> End_Date example_Y = None
   \<and> gantt_data example_frame =
       Inr [\<lparr>Task = ''X'',
             Start = \<lparr>year = 2024, month = 12, day = 31\<rparr>,
             Finish = \<lparr>year = 2025, month = 3, day = 31\<rparr>,
             Resource = Str ''Ops'', Status = Str ''In Progress'', Tool = Str ''A'',
             Quarter = ''Q1 2025'', Full_Name = Str ''X''\<rparr>]
   \<and> status_counts example_frame = Inr [(Str ''In Progress'', 1), (Str '''', 1)]
   \<and> quarter_dist example_frame = [(''Q1 2025'', 1), (''Q5 2099'', 1)]
   \<and> (\<exists>gs sc hc. gantt_data example_frame = Inr gs
        \<and> total_items example_frame = length (rows example_frame)
        \<and> status_counts example_frame = Inr sc
        \<and> stakeholder_counts example_frame = Inr hc)"
proof -
  have a: "col_index (labels example_frame) ''Name'' = Inr 0" by code_simp
  have b: "col_index (labels example_frame) ''Requesting Stakeholder'' = Inr 1" by code_simp
  have c: "col_index (labels example_frame) ''Status'' = Inr 4" by code_simp
  have d: "col_index (labels example_frame) ''Tool Name'' = Inr 3" by code_simp
  have d': "distinct (labels example_frame)" by code_simp
  have e: "\<forall>r \<in> set (rows example_frame). Start_Date r \<noteq> None \<and> End_Date r \<noteq> None
                \<longrightarrow> is_Str (cell_at (cells r) 0)"
    by code_simp
  have f: "rows example_frame = [example_X, example_Y]" by (simp add: example_frame_def)
  have g: "End_Date example_Y = None" by (simp add: example_Y_def)
  have h: "gantt_data example_frame =
       Inr [\<lparr>Task = ''X'',
             Start = \<lparr>year = 2024, month = 12, day = 31\<rparr>,
             Finish = \<lparr>year = 2025, month = 3, day = 31\<rparr>,
             Resource = Str ''Ops'', Status = Str ''In Progress'', Tool = Str ''A'',
             Quarter = ''Q1 2025'', Full_Name = Str ''X''\<rparr>]"
    by code_simp
  have i: "status_counts example_frame = Inr [(Str ''In Progress'', 1), (Str '''', 1)]"
    by code_simp
  have j: "quarter_dist example_frame = [(''Q1 2025'', 1), (''Q5 2099'', 1)]"
    by code_simp
  from chart_rows_and_counts [OF a b c d d' e]
  have k: "\<exists>gs sc hc. gantt_data example_frame = Inr gs
        \<and> total_items example_frame = length (rows example_frame)
        \<and> status_counts example_frame = Inr sc
        \<and> stakeholder_counts example_frame = Inr hc"
    by blast
  have e': "is_Str (cell_at (cells example_X) 0)" by code_simp
  from a b c d d' e' f g h i j k show ?thesis by (intro conjI)
qed

end
